theory Spec2Isabelle
  imports Complex_Main "HOL-Library.Sublist"
begin

section \<open>Ministry of Truth backend: the two entry points\<close>

text \<open>
  The repository holds two variants of the same proxy: the long-running server of
  \<^verbatim>\<open>main.go\<close> (a gorilla/mux router behind \<^verbatim>\<open>corsMiddleware\<close>) and the serverless
  function \<^verbatim>\<open>Handler\<close> (package \<^verbatim>\<open>api\<close>), which routes by hand. Both are embedded here.
  Where the two files declare the same name with a different body, the serverless one
  carries the suffix \<open>_api\<close>.

  Everything a handler does to the outside is explicit. The response writer and the list
  of upstream calls made so far are one record, \<open>exchange\<close>, threaded through each handler.
  The calls to the standard library whose outcome depends on the outside (environment,
  network, clock, the JSON codec, the static file server) are the fields of the record
  \<open>world\<close>; \<open>url_String w r p\<close> is the text of the URL of \<open>r\<close> with its path replaced by \<open>p\<close>.
  Log output is left out.
\<close>

subsection \<open>JSON shapes (identical in both files)\<close>

record Source =
  ID :: string
  Name :: string

record Article =
  Source :: Source
  Author :: string
  Title :: string
  Description :: string
  URL :: string
  URLToImage :: string
  PublishedAt :: string
  Content :: string

record NewsResponse =
  Status :: string
  TotalResults :: int
  Articles :: "Article list"

record Message =
  Role :: string
  Content :: string

record OpenAIRequest =
  Model :: string
  Messages :: "Message list"
  MaxTokens :: int
  Temperature :: real

record Choice =
  Message :: Message

record OpenAIResponse =
  Choices :: "Choice list"

text \<open>The anonymous struct \<^verbatim>\<open>requestData\<close> that the transform handlers decode into.\<close>

record requestData =
  Title :: string
  Description :: string

subsection \<open>Requests, responses and the outside world\<close>

text \<open>
  An inbound request: \<open>Query\<close> is \<^verbatim>\<open>r.URL.Query()\<close>, the decoded key/value pairs in the
  order of the URL; \<open>Body\<close> is the bytes of \<^verbatim>\<open>r.Body\<close>.
\<close>

record request =
  Method :: string
  Path :: string
  Query :: "(string \<times> string) list"
  Body :: string

text \<open>\<^verbatim>\<open>url.Values.Get\<close>: the first value of the key, the empty string when there is none.\<close>

definition Query_Get :: "request \<Rightarrow> string \<Rightarrow> string" where
  "Query_Get r key = (case map_of (Query r) key of None \<Rightarrow> [] | Some v \<Rightarrow> v)"

text \<open>
  An upstream response: its status code and its body, which is a stream whose reading can
  fail (\<open>Inl\<close> the error).
\<close>

record http_response =
  StatusCode :: int
  RespBody :: "string + string"

text \<open>An outbound request as \<^verbatim>\<open>http.NewRequest\<close> builds it.\<close>

record client_request =
  req_Method :: string
  req_URL :: string
  req_Header :: "string \<rightharpoonup> string"
  req_Body :: string

datatype call = Get string | Do client_request

text \<open>What \<^verbatim>\<open>json.NewEncoder(w).Encode\<close> or \<^verbatim>\<open>fmt.Fprintln\<close> writes to the client.\<close>

datatype payload =
  Text string
  | NewsJSON NewsResponse
  | MapJSON "string \<rightharpoonup> string"

text \<open>
  The response writer (\<open>hdr\<close>, \<open>code\<close>, \<open>out\<close>) together with the upstream calls performed
  while serving (\<open>upstream\<close>, oldest first). \<open>code = None\<close>: no status line written yet.
\<close>

record exchange =
  hdr :: "string \<rightharpoonup> string"
  code :: "nat option"
  out :: "payload list"
  upstream :: "call list"

record world =
  os_Getenv :: "string \<Rightarrow> string"
  http_Get :: "string \<Rightarrow> string + http_response"
  json_Marshal :: "OpenAIRequest \<Rightarrow> string + string"
  http_NewRequest :: "string \<Rightarrow> string \<Rightarrow> string \<Rightarrow> string + client_request"
  client_Do :: "client_request \<Rightarrow> string + http_response"
  json_Unmarshal_NewsResponse :: "string \<Rightarrow> string + NewsResponse"
  json_Decode_OpenAIResponse :: "string \<Rightarrow> string + OpenAIResponse"
  json_Decode_requestData :: "string \<Rightarrow> string + requestData"
  time_Now_RFC3339 :: string
  http_FileServer :: "request \<Rightarrow> exchange \<Rightarrow> exchange"
  url_String :: "request \<Rightarrow> string \<Rightarrow> string"

subsection \<open>The response writer of net/http\<close>

definition Header_Set :: "string \<Rightarrow> string \<Rightarrow> exchange \<Rightarrow> exchange" where
  "Header_Set k v x = x\<lparr>hdr := (hdr x)(k \<mapsto> v)\<rparr>"

text \<open>Only the first \<^verbatim>\<open>WriteHeader\<close> counts.\<close>

definition WriteHeader :: "nat \<Rightarrow> exchange \<Rightarrow> exchange" where
  "WriteHeader c x = (case code x of None \<Rightarrow> x\<lparr>code := Some c\<rparr> | Some _ \<Rightarrow> x)"

text \<open>A write before any \<^verbatim>\<open>WriteHeader\<close> sends status 200 first.\<close>

definition Write :: "payload \<Rightarrow> exchange \<Rightarrow> exchange" where
  "Write p x = (let x' = WriteHeader 200 x in x'\<lparr>out := out x' @ [p]\<rparr>)"

definition Encode :: "payload \<Rightarrow> exchange \<Rightarrow> exchange" where
  "Encode p x = Write p x"

text \<open>\<^verbatim>\<open>http.Error\<close>: plain-text headers, the status, the message and a newline.\<close>

definition http_Error :: "string \<Rightarrow> nat \<Rightarrow> exchange \<Rightarrow> exchange" where
  "http_Error msg c x =
     Write (Text (msg @ [CHR 0x0A]))
       (WriteHeader c
         (Header_Set ''X-Content-Type-Options'' ''nosniff''
           (Header_Set ''Content-Type'' ''text/plain; charset=utf-8'' x)))"

text \<open>The status the client sees: 200 when the handler returned without writing one.\<close>

definition client_status :: "exchange \<Rightarrow> nat" where
  "client_status x = (case code x of None \<Rightarrow> 200 | Some c \<Rightarrow> c)"

text \<open>The writer as the server hands it over: nothing sent, no upstream call made.\<close>

definition untouched :: "exchange \<Rightarrow> bool" where
  "untouched x \<longleftrightarrow> code x = None \<and> out x = [] \<and> upstream x = []"

definition new_exchange :: exchange where
  "new_exchange = \<lparr>hdr = Map.empty, code = None, out = [], upstream = []\<rparr>"

subsection \<open>The verb \<^verbatim>\<open>%d\<close> of fmt\<close>

definition digit :: "nat \<Rightarrow> char" where
  "digit n = char_of (48 + n)"

function fmt_nat :: "nat \<Rightarrow> string" where
  "fmt_nat n = (if n < 10 then [digit n] else fmt_nat (n div 10) @ [digit (n mod 10)])"
  by pat_completeness auto
termination
  by (relation "measure id") auto

definition fmt_d :: "int \<Rightarrow> string" where
  "fmt_d i = (if i < 0 then CHR ''-'' # fmt_nat (nat (- i)) else fmt_nat (nat i))"

subsection \<open>Cutting strings\<close>

text \<open>
  \<open>cut c s\<close> is the text before and after the first \<open>c\<close> in \<open>s\<close>; \<open>pieces c s\<close> is \<open>s\<close> cut at
  every \<open>c\<close>, as \<^verbatim>\<open>strings.Split\<close> does.
\<close>

fun cut :: "char \<Rightarrow> string \<Rightarrow> string \<times> string" where
  "cut c [] = ([], [])"
| "cut c (a # s) = (if a = c then ([], s) else (case cut c s of (p, t) \<Rightarrow> (a # p, t)))"

fun pieces :: "char \<Rightarrow> string \<Rightarrow> string list" where
  "pieces c [] = [[]]"
| "pieces c (a # s) =
     (if a = c then [] # pieces c s
      else (case pieces c s of [] \<Rightarrow> [[a]] | p # ps \<Rightarrow> (a # p) # ps))"

subsection \<open>Canonical paths\<close>

text \<open>
  \<^verbatim>\<open>path.Clean\<close> of the standard library, by its documented rules: slashes that follow a
  slash and the elements \<open>.\<close> are dropped; an element \<open>..\<close> removes the element before it, is
  dropped at the root of a rooted path, and is kept at the front of a relative one; the
  empty result is \<open>.\<close>. \<open>clean_elem\<close> adds one element to the elements kept so far.
\<close>

definition clean_elem :: "bool \<Rightarrow> string list \<Rightarrow> string \<Rightarrow> string list" where
  "clean_elem rooted kept e =
     (if e = [] \<or> e = ''.'' then kept
      else if e = ''..'' then
        (if kept \<noteq> [] \<and> last kept \<noteq> ''..'' then butlast kept
         else if rooted then kept
         else kept @ [''..''])
      else kept @ [e])"

fun join_slash :: "string list \<Rightarrow> string" where
  "join_slash [] = []"
| "join_slash [e] = e"
| "join_slash (e # es) = e @ CHR ''/'' # join_slash es"

definition path_Clean :: "string \<Rightarrow> string" where
  "path_Clean p =
     (if p = [] then ''.''
      else
        let rooted = (hd p = CHR ''/'');
            kept = foldl (clean_elem rooted) [] (pieces CHR ''/'' p);
            np = (if rooted then ''/'' else []) @ join_slash kept
        in if np = [] then ''.'' else np)"

section \<open>main.go\<close>

record Config =
  NewsAPIKey :: string
  OpenAIAPIKey :: string
  Port :: string

definition loadConfig :: "world \<Rightarrow> string + Config" where
  "loadConfig w =
     (let newsAPIKey = os_Getenv w ''NEWS_API_KEY'' in
      if newsAPIKey = [] then Inl ''NEWS_API_KEY environment variable is required''
      else
        let openAIAPIKey = os_Getenv w ''OPENAI_API_KEY'' in
        if openAIAPIKey = [] then Inl ''OPENAI_API_KEY environment variable is required''
        else
          let port = os_Getenv w ''PORT'';
              port = (if port = [] then ''8080'' else port)
          in Inr \<lparr>NewsAPIKey = newsAPIKey, OpenAIAPIKey = openAIAPIKey, Port = port\<rparr>)"

definition corsMiddleware ::
  "(request \<Rightarrow> exchange \<Rightarrow> exchange) \<Rightarrow> request \<Rightarrow> exchange \<Rightarrow> exchange" where
  "corsMiddleware nxt r x0 =
     (let x = Header_Set ''Access-Control-Allow-Origin'' ''*'' x0;
          x = Header_Set ''Access-Control-Allow-Methods'' ''GET, POST, PUT, DELETE, OPTIONS'' x;
          x = Header_Set ''Access-Control-Allow-Headers'' ''Content-Type, Authorization'' x
      in if Method r = ''OPTIONS'' then WriteHeader 200 x else nxt r x)"

text \<open>
  \<^verbatim>\<open>fetchNews\<close> reads the global \<^verbatim>\<open>config\<close>; here it is an argument. The result comes
  with the upstream calls the function made.
\<close>

definition fetchNews :: "world \<Rightarrow> Config \<Rightarrow> string \<Rightarrow> (string + NewsResponse) \<times> call list" where
  "fetchNews w config endpoint =
     (let url = ''https://newsapi.org/v2'' @ endpoint @ ''&apiKey='' @ NewsAPIKey config in
      (case http_Get w url of
         Inl err \<Rightarrow> Inl (''failed to fetch news: '' @ err)
       | Inr resp \<Rightarrow>
           (case RespBody resp of
              Inl err \<Rightarrow> Inl (''failed to read response body: '' @ err)
            | Inr body \<Rightarrow>
                if StatusCode resp \<noteq> 200
                then Inl (''NewsAPI returned status '' @ fmt_d (StatusCode resp))
                else (case json_Unmarshal_NewsResponse w body of
                        Inl err \<Rightarrow> Inl (''failed to parse JSON response: '' @ err)
                      | Inr newsResponse \<Rightarrow> Inr newsResponse)),
       [Get url]))"

definition getTopHeadlines :: "world \<Rightarrow> Config \<Rightarrow> request \<Rightarrow> exchange \<Rightarrow> exchange" where
  "getTopHeadlines w config r x0 =
     (let x = Header_Set ''Content-Type'' ''application/json'' x0;
          category = Query_Get r ''category'';
          endpoint = (if category \<noteq> [] then ''/top-headlines?country=us&category='' @ category
                      else ''/top-headlines?country=us'');
          (res, cs) = fetchNews w config endpoint;
          x = x\<lparr>upstream := upstream x @ cs\<rparr>
      in case res of
           Inl err \<Rightarrow> http_Error (''Error fetching news: '' @ err) 500 x
         | Inr newsResponse \<Rightarrow> Encode (NewsJSON newsResponse) x)"

definition searchNews :: "world \<Rightarrow> Config \<Rightarrow> request \<Rightarrow> exchange \<Rightarrow> exchange" where
  "searchNews w config r x0 =
     (let x = Header_Set ''Content-Type'' ''application/json'' x0;
          query = Query_Get r ''q''
      in if query = [] then http_Error ''Query parameter 'q' is required'' 400 x
         else
           let endpoint = ''/everything?q='' @ query;
               (res, cs) = fetchNews w config endpoint;
               x = x\<lparr>upstream := upstream x @ cs\<rparr>
           in case res of
                Inl err \<Rightarrow> http_Error (''Error searching news: '' @ err) 500 x
              | Inr newsResponse \<Rightarrow> Encode (NewsJSON newsResponse) x)"

definition systemPrompt :: string where
  "systemPrompt = ''You are the Ministry of Truth from George Orwell's 1984. Transform news headlines and descriptions into dystopian propaganda using doublespeak, references to Big Brother, the Party, thoughtcrime, etc. Keep responses under 200 characters.''"

text \<open>The struct literal \<^verbatim>\<open>openAIRequest\<close>, the same in \<^verbatim>\<open>transformNews\<close> and \<^verbatim>\<open>transformContent\<close>.\<close>

definition openAIRequest :: "string \<Rightarrow> string \<Rightarrow> OpenAIRequest" where
  "openAIRequest title description =
     \<lparr>Model = ''gpt-3.5-turbo'',
      Messages =
        [\<lparr>Role = ''system'', Content = systemPrompt\<rparr>,
         \<lparr>Role = ''user'',
          Content = ''Transform this news: Title: '' @ title @ '', Description: '' @ description\<rparr>],
      MaxTokens = 200,
      Temperature = 0.9\<rparr>"

text \<open>The two \<^verbatim>\<open>req.Header.Set\<close> calls on the request that \<^verbatim>\<open>http.NewRequest\<close> returned.\<close>

definition authorize :: "string \<Rightarrow> client_request \<Rightarrow> client_request" where
  "authorize key req =
     req\<lparr>req_Header := (req_Header req)(''Authorization'' \<mapsto> ''Bearer '' @ key,
                                          ''Content-Type'' \<mapsto> ''application/json'')\<rparr>"

text \<open>\<^verbatim>\<open>json.NewDecoder(resp.Body).Decode(&openAIResponse)\<close>: reading the body, then parsing it.\<close>

definition Decode_OpenAIResponse :: "world \<Rightarrow> http_response \<Rightarrow> string + OpenAIResponse" where
  "Decode_OpenAIResponse w resp =
     (case RespBody resp of Inl err \<Rightarrow> Inl err | Inr s \<Rightarrow> json_Decode_OpenAIResponse w s)"

definition transformNews :: "world \<Rightarrow> Config \<Rightarrow> request \<Rightarrow> exchange \<Rightarrow> exchange" where
  "transformNews w config r x0 =
     (let x = Header_Set ''Content-Type'' ''application/json'' x0 in
      if Method r \<noteq> ''POST'' then http_Error ''Method not allowed'' 405 x
      else
        case json_Decode_requestData w (Body r) of
          Inl err \<Rightarrow> http_Error ''Invalid JSON'' 400 x
        | Inr requestData \<Rightarrow>
            (case json_Marshal w (openAIRequest (Title requestData) (Description requestData)) of
               Inl err \<Rightarrow> http_Error ''Error creating request'' 500 x
             | Inr jsonData \<Rightarrow>
                 (case http_NewRequest w ''POST'' ''https://api.openai.com/v1/chat/completions'' jsonData of
                    Inl err \<Rightarrow> http_Error ''Error creating request'' 500 x
                  | Inr req0 \<Rightarrow>
                      (let req = authorize (OpenAIAPIKey config) req0;
                           x = x\<lparr>upstream := upstream x @ [Do req]\<rparr>
                       in (case client_Do w req of
                             Inl err \<Rightarrow> http_Error ''Error making request to OpenAI'' 500 x
                           | Inr resp \<Rightarrow>
                               if StatusCode resp \<noteq> 200
                               then http_Error ''Error from OpenAI API'' 500 x
                               else
                                 (case Decode_OpenAIResponse w resp of
                                    Inl err \<Rightarrow> http_Error ''Error parsing OpenAI response'' 500 x
                                  | Inr openAIResponse \<Rightarrow>
                                      (case Choices openAIResponse of
                                         [] \<Rightarrow> http_Error ''No response from OpenAI'' 500 x
                                       | c # _ \<Rightarrow>
                                           Encode (MapJSON [''transformedContent'' \<mapsto> Content (Message c)]) x)))))))"

definition healthCheck :: "world \<Rightarrow> request \<Rightarrow> exchange \<Rightarrow> exchange" where
  "healthCheck w r x0 =
     (let response = [''status'' \<mapsto> ''healthy'',
                      ''service'' \<mapsto> ''Ministry of Truth Backend'',
                      ''time'' \<mapsto> time_Now_RFC3339 w];
          x = Header_Set ''Content-Type'' ''application/json'' x0
      in Encode (MapJSON response) x)"

subsection \<open>The router built in \<^verbatim>\<open>main\<close>\<close>

text \<open>
  gorilla/mux is not part of the repository; \<open>router\<close> is what its \<^verbatim>\<open>Router.ServeHTTP\<close> does
  with the routes and the middleware that \<^verbatim>\<open>main\<close> registers. \<^verbatim>\<open>main\<close> does not call
  \<^verbatim>\<open>SkipClean\<close>, so a request whose path is not in canonical form (\<open>cleanPath\<close>) is first
  answered with a redirect to the canonical path: status 301 and a \<open>Location\<close> header, with
  no route tried and outside the middleware. Otherwise the routes are tried in the order
  of registration, the first one whose matchers all accept the request is served, and the
  handler of the matched route runs inside the middleware given to \<^verbatim>\<open>Use\<close>; with no
  matching route the router answers 404 itself.
\<close>

definition cleanPath :: "string \<Rightarrow> string" where
  "cleanPath p0 =
     (if p0 = [] then ''/''
      else
        let p = (if hd p0 \<noteq> CHR ''/'' then CHR ''/'' # p0 else p0);
            np = path_Clean p
        in if last p = CHR ''/'' \<and> np \<noteq> ''/'' then np @ ''/'' else np)"

datatype matcher = PathIs string | PathPrefix string | Methods "string list"

record route =
  matchers :: "matcher list"
  handler :: "request \<Rightarrow> exchange \<Rightarrow> exchange"

fun matcher_Match :: "matcher \<Rightarrow> request \<Rightarrow> bool" where
  "matcher_Match (PathIs p) r = (Path r = p)"
| "matcher_Match (PathPrefix p) r = prefix p (Path r)"
| "matcher_Match (Methods ms) r = (Method r \<in> set ms)"

definition route_Match :: "route \<Rightarrow> request \<Rightarrow> bool" where
  "route_Match rt r = list_all (\<lambda>m. matcher_Match m r) (matchers rt)"

definition routes :: "world \<Rightarrow> Config \<Rightarrow> route list" where
  "routes w config =
     [\<lparr>matchers = [PathIs ''/api/news/headlines'', Methods [''GET'']], handler = getTopHeadlines w config\<rparr>,
      \<lparr>matchers = [PathIs ''/api/news/search'', Methods [''GET'']], handler = searchNews w config\<rparr>,
      \<lparr>matchers = [PathIs ''/api/transform'', Methods [''POST'']], handler = transformNews w config\<rparr>,
      \<lparr>matchers = [PathIs ''/health'', Methods [''GET'']], handler = healthCheck w\<rparr>,
      \<lparr>matchers = [PathPrefix ''/''], handler = http_FileServer w\<rparr>]"

definition router :: "world \<Rightarrow> Config \<Rightarrow> request \<Rightarrow> exchange \<Rightarrow> exchange" where
  "router w config r x =
     (let p = cleanPath (Path r) in
      if p \<noteq> Path r
      then WriteHeader 301 (Header_Set ''Location'' (url_String w r p) x)
      else
        (case find (\<lambda>rt. route_Match rt r) (routes w config) of
           None \<Rightarrow> http_Error ''404 page not found'' 404 x
         | Some rt \<Rightarrow> corsMiddleware (handler rt) r x))"

text \<open>
  \<^verbatim>\<open>main\<close> either dies in \<^verbatim>\<open>log.Fatalf\<close> before the router exists, or reaches
  \<^verbatim>\<open>http.ListenAndServe\<close> with an address and the router.
\<close>

datatype process = Exited string | Serving string "request \<Rightarrow> exchange \<Rightarrow> exchange"

definition main :: "world \<Rightarrow> process" where
  "main w =
     (case loadConfig w of
        Inl err \<Rightarrow> Exited (''Failed to load configuration: '' @ err)
      | Inr config \<Rightarrow> Serving ('':'' @ Port config) (router w config))"

text \<open>What a client gets from the process: nothing when it never listened.\<close>

definition answer :: "process \<Rightarrow> request \<Rightarrow> exchange option" where
  "answer p r = (case p of Exited _ \<Rightarrow> None | Serving _ h \<Rightarrow> Some (h r new_exchange))"

section \<open>The serverless function (package api)\<close>

record Config_api =
  NewsAPIKey_api :: string
  OpenAIAPIKey_api :: string

definition loadConfig_api :: "world \<Rightarrow> string + Config_api" where
  "loadConfig_api w =
     (let newsAPIKey = os_Getenv w ''NEWS_API_KEY'' in
      if newsAPIKey = [] then Inl ''NEWS_API_KEY environment variable is required''
      else
        let openAIAPIKey = os_Getenv w ''OPENAI_API_KEY'' in
        if openAIAPIKey = [] then Inl ''OPENAI_API_KEY environment variable is required''
        else Inr \<lparr>NewsAPIKey_api = newsAPIKey, OpenAIAPIKey_api = openAIAPIKey\<rparr>)"

definition setCORS :: "exchange \<Rightarrow> exchange" where
  "setCORS x0 =
     (let x = Header_Set ''Access-Control-Allow-Origin'' ''*'' x0;
          x = Header_Set ''Access-Control-Allow-Methods'' ''GET, POST, PUT, DELETE, OPTIONS'' x
      in Header_Set ''Access-Control-Allow-Headers'' ''Content-Type, Authorization'' x)"

definition fetchNews_api ::
  "world \<Rightarrow> string \<Rightarrow> Config_api \<Rightarrow> (string + NewsResponse) \<times> call list" where
  "fetchNews_api w endpoint config =
     (let url = ''https://newsapi.org/v2'' @ endpoint @ ''&apiKey='' @ NewsAPIKey_api config in
      (case http_Get w url of
         Inl err \<Rightarrow> Inl (''failed to fetch news: '' @ err)
       | Inr resp \<Rightarrow>
           (case RespBody resp of
              Inl err \<Rightarrow> Inl (''failed to read response body: '' @ err)
            | Inr body \<Rightarrow>
                if StatusCode resp \<noteq> 200
                then Inl (''NewsAPI returned status '' @ fmt_d (StatusCode resp))
                else (case json_Unmarshal_NewsResponse w body of
                        Inl err \<Rightarrow> Inl (''failed to parse JSON response: '' @ err)
                      | Inr newsResponse \<Rightarrow> Inr newsResponse)),
       [Get url]))"

definition transformContent ::
  "world \<Rightarrow> string \<Rightarrow> string \<Rightarrow> Config_api \<Rightarrow> (string + (string \<rightharpoonup> string)) \<times> call list" where
  "transformContent w title description config =
     (case json_Marshal w (openAIRequest title description) of
        Inl err \<Rightarrow> (Inl err, [])
      | Inr jsonData \<Rightarrow>
          (case http_NewRequest w ''POST'' ''https://api.openai.com/v1/chat/completions'' jsonData of
             Inl err \<Rightarrow> (Inl err, [])
           | Inr req0 \<Rightarrow>
               let req = authorize (OpenAIAPIKey_api config) req0 in
               (case client_Do w req of
                  Inl err \<Rightarrow> Inl err
                | Inr resp \<Rightarrow>
                    if StatusCode resp \<noteq> 200
                    then Inl (''OpenAI API returned status '' @ fmt_d (StatusCode resp))
                    else
                      (case Decode_OpenAIResponse w resp of
                         Inl err \<Rightarrow> Inl err
                       | Inr openAIResponse \<Rightarrow>
                           (case Choices openAIResponse of
                              [] \<Rightarrow> Inl ''no response from OpenAI''
                            | c # _ \<Rightarrow> Inr [''transformedContent'' \<mapsto> Content (Message c)])),
                [Do req])))"

definition handleHealth :: "world \<Rightarrow> request \<Rightarrow> exchange \<Rightarrow> exchange" where
  "handleHealth w r x0 =
     (let x = Header_Set ''Content-Type'' ''application/json'' x0;
          response = [''status'' \<mapsto> ''healthy'',
                      ''service'' \<mapsto> ''Ministry of Truth Backend'',
                      ''time'' \<mapsto> time_Now_RFC3339 w]
      in Encode (MapJSON response) x)"

definition handleHeadlines :: "world \<Rightarrow> request \<Rightarrow> Config_api \<Rightarrow> exchange \<Rightarrow> exchange" where
  "handleHeadlines w r config x0 =
     (let x = Header_Set ''Content-Type'' ''application/json'' x0;
          category = Query_Get r ''category'';
          endpoint = (if category \<noteq> [] then ''/top-headlines?country=us&category='' @ category
                      else ''/top-headlines?country=us'');
          (res, cs) = fetchNews_api w endpoint config;
          x = x\<lparr>upstream := upstream x @ cs\<rparr>
      in case res of
           Inl err \<Rightarrow> http_Error (''Error fetching news: '' @ err) 500 x
         | Inr newsResponse \<Rightarrow> Encode (NewsJSON newsResponse) x)"

definition handleSearch :: "world \<Rightarrow> request \<Rightarrow> Config_api \<Rightarrow> exchange \<Rightarrow> exchange" where
  "handleSearch w r config x0 =
     (let x = Header_Set ''Content-Type'' ''application/json'' x0;
          query = Query_Get r ''q''
      in if query = [] then http_Error ''Query parameter 'q' is required'' 400 x
         else
           let endpoint = ''/everything?q='' @ query;
               (res, cs) = fetchNews_api w endpoint config;
               x = x\<lparr>upstream := upstream x @ cs\<rparr>
           in case res of
                Inl err \<Rightarrow> http_Error (''Error searching news: '' @ err) 500 x
              | Inr newsResponse \<Rightarrow> Encode (NewsJSON newsResponse) x)"

definition handleTransform :: "world \<Rightarrow> request \<Rightarrow> Config_api \<Rightarrow> exchange \<Rightarrow> exchange" where
  "handleTransform w r config x0 =
     (let x = Header_Set ''Content-Type'' ''application/json'' x0 in
      case json_Decode_requestData w (Body r) of
        Inl err \<Rightarrow> http_Error ''Invalid JSON'' 400 x
      | Inr requestData \<Rightarrow>
          (let (res, cs) = transformContent w (Title requestData) (Description requestData) config;
               x = x\<lparr>upstream := upstream x @ cs\<rparr>
           in (case res of
                 Inl err \<Rightarrow> http_Error ''Error transforming content'' 500 x
               | Inr result \<Rightarrow> Encode (MapJSON result) x)))"

definition Handler :: "world \<Rightarrow> request \<Rightarrow> exchange \<Rightarrow> exchange" where
  "Handler w r x0 =
     (let x = setCORS x0 in
      if Method r = ''OPTIONS'' then WriteHeader 200 x
      else
        case loadConfig_api w of
          Inl err \<Rightarrow> http_Error ''Server configuration error'' 500 x
        | Inr config \<Rightarrow>
            let path = Path r in
            if path = ''/api/health'' then handleHealth w r x
            else if prefix ''/api/news/headlines'' path then handleHeadlines w r config x
            else if prefix ''/api/news/search'' path then handleSearch w r config x
            else if path = ''/api/transform'' \<and> Method r = ''POST'' then handleTransform w r config x
            else http_Error ''Not found'' 404 x)"

section \<open>Auxiliary notions for the properties\<close>

subsection \<open>Reading the query part of a URL\<close>

text \<open>
  The receiver of a URL reads its parameters by cutting the text after the first \<open>?\<close> at
  every \<open>&\<close> and each piece at its first \<open>=\<close> (\<open>cut\<close> and \<open>pieces\<close> are defined with the
  string functions above).
\<close>

definition url_params :: "string \<Rightarrow> (string \<times> string) list" where
  "url_params u = map (cut CHR ''='') (pieces CHR ''&'' (snd (cut CHR ''?'' u)))"

definition called_urls :: "exchange \<Rightarrow> string list" where
  "called_urls x = concat (map (\<lambda>c. case c of Get u \<Rightarrow> [u] | Do q \<Rightarrow> [req_URL q]) (upstream x))"

subsection \<open>The two upstream addresses\<close>

abbreviation news_url :: "string \<Rightarrow> string \<Rightarrow> string" where
  "news_url key endpoint \<equiv> ''https://newsapi.org/v2'' @ endpoint @ ''&apiKey='' @ key"

abbreviation headlines_endpoint :: "request \<Rightarrow> string" where
  "headlines_endpoint r \<equiv>
     (if Query_Get r ''category'' \<noteq> []
      then ''/top-headlines?country=us&category='' @ Query_Get r ''category''
      else ''/top-headlines?country=us'')"

abbreviation completions_url :: string where
  "completions_url \<equiv> ''https://api.openai.com/v1/chat/completions''"

subsection \<open>Shapes of two fixed answers\<close>

text \<open>The answer to a preflight: status 200, nothing in the body, the three CORS headers.\<close>

definition preflight_reply :: "exchange \<Rightarrow> bool" where
  "preflight_reply y \<longleftrightarrow>
     client_status y = 200 \<and> out y = [] \<and> upstream y = []
     \<and> hdr y ''Access-Control-Allow-Origin'' = Some ''*''
     \<and> hdr y ''Access-Control-Allow-Methods'' = Some ''GET, POST, PUT, DELETE, OPTIONS''
     \<and> hdr y ''Access-Control-Allow-Headers'' = Some ''Content-Type, Authorization''"

text \<open>
  The health report: status 200, one JSON object with the fields \<open>status\<close>, \<open>service\<close> and
  \<open>time\<close>, and no upstream call.
\<close>

definition health_reply :: "world \<Rightarrow> exchange \<Rightarrow> bool" where
  "health_reply w y \<longleftrightarrow>
     client_status y = 200 \<and> upstream y = []
     \<and> (case out y of
          [MapJSON m] \<Rightarrow>
            m ''status'' = Some ''healthy''
            \<and> m ''service'' = Some ''Ministry of Truth Backend''
            \<and> m ''time'' = Some (time_Now_RFC3339 w)
        | _ \<Rightarrow> False)"

subsection \<open>Test doubles for the outside world\<close>

text \<open>
  \<open>stub_world\<close> has both credentials set, upstreams that answer 200 and a file server
  that has the index page only;
  \<open>stub_world_500\<close> has upstreams that answer 500; \<open>stub_world_noenv\<close> has an empty
  environment.
\<close>

definition stub_world :: world where
  "stub_world =
     \<lparr>os_Getenv = (\<lambda>k. if k = ''NEWS_API_KEY'' then ''N''
                         else if k = ''OPENAI_API_KEY'' then ''O'' else []),
      http_Get = (\<lambda>u. Inr \<lparr>StatusCode = 200, RespBody = Inr ''ok''\<rparr>),
      json_Marshal = (\<lambda>q. Inr (concat (map Message.Content (Messages q)))),
      http_NewRequest =
        (\<lambda>m u b. Inr \<lparr>req_Method = m, req_URL = u, req_Header = Map.empty, req_Body = b\<rparr>),
      client_Do = (\<lambda>q. Inr \<lparr>StatusCode = 200, RespBody = Inr ''X''\<rparr>),
      json_Unmarshal_NewsResponse = (\<lambda>s. Inr \<lparr>Status = s, TotalResults = 0, Articles = []\<rparr>),
      json_Decode_OpenAIResponse =
        (\<lambda>s. Inr \<lparr>Choices = [\<lparr>Message = \<lparr>Role = ''assistant'', Content = s\<rparr>\<rparr>]\<rparr>),
      json_Decode_requestData =
        (\<lambda>s. if s = [] then Inl ''EOF''
             else if s = ''{}'' then Inr \<lparr>Title = [], Description = []\<rparr>
             else Inr \<lparr>Title = ''T'', Description = ''D''\<rparr>),
      time_Now_RFC3339 = ''2025-01-01T00:00:00Z'',
      http_FileServer =
        (\<lambda>r x. if Path r = ''/'' then Write (Text ''<!DOCTYPE html>'') x
               else http_Error ''404 page not found'' 404 x),
      url_String = (\<lambda>r p. p)\<rparr>"

definition stub_world_500 :: world where
  "stub_world_500 =
     stub_world
       \<lparr>http_Get := (\<lambda>u. Inr \<lparr>StatusCode = 500, RespBody = Inr []\<rparr>),
        client_Do := (\<lambda>q. Inr \<lparr>StatusCode = 500, RespBody = Inr []\<rparr>)\<rparr>"

definition stub_world_noenv :: world where
  "stub_world_noenv = stub_world\<lparr>os_Getenv := (\<lambda>k. [])\<rparr>"

definition stub_config :: Config where
  "stub_config = \<lparr>NewsAPIKey = ''N'', OpenAIAPIKey = ''O'', Port = ''8080''\<rparr>"

definition stub_config_api :: Config_api where
  "stub_config_api = \<lparr>NewsAPIKey_api = ''N'', OpenAIAPIKey_api = ''O''\<rparr>"

definition stub_request :: "string \<Rightarrow> string \<Rightarrow> (string \<times> string) list \<Rightarrow> string \<Rightarrow> request" where
  "stub_request m p q b = \<lparr>Method = m, Path = p, Query = q, Body = b\<rparr>"

text \<open>The completion request that the transform handlers send in \<open>stub_world\<close> for any non-empty body other than \<open>{}\<close>.\<close>

definition stub_completion_request :: client_request where
  "stub_completion_request =
     authorize ''O''
       \<lparr>req_Method = ''POST'', req_URL = completions_url, req_Header = Map.empty,
        req_Body = concat (map Message.Content (Messages (openAIRequest ''T'' ''D'')))\<rparr>"



section \<open>Facts about the response writer\<close>

lemma Header_Set_fields [simp]:
  "hdr (Header_Set k v x) = (hdr x)(k \<mapsto> v)"
  "code (Header_Set k v x) = code x"
  "out (Header_Set k v x) = out x"
  "upstream (Header_Set k v x) = upstream x"
  by (simp_all add: Header_Set_def)

lemma WriteHeader_fields [simp]:
  "hdr (WriteHeader c x) = hdr x"
  "out (WriteHeader c x) = out x"
  "upstream (WriteHeader c x) = upstream x"
  "code (WriteHeader c x) = Some (case code x of None \<Rightarrow> c | Some d \<Rightarrow> d)"
  by (simp_all add: WriteHeader_def split: option.splits)

lemma Write_fields [simp]:
  "hdr (Write p x) = hdr x"
  "out (Write p x) = out x @ [p]"
  "upstream (Write p x) = upstream x"
  "code (Write p x) = Some (case code x of None \<Rightarrow> 200 | Some d \<Rightarrow> d)"
  by (simp_all add: Write_def Let_def)

lemma Encode_fields [simp]:
  "hdr (Encode p x) = hdr x"
  "out (Encode p x) = out x @ [p]"
  "upstream (Encode p x) = upstream x"
  "code (Encode p x) = Some (case code x of None \<Rightarrow> 200 | Some d \<Rightarrow> d)"
  by (simp_all add: Encode_def)

lemma http_Error_fields [simp]:
  "out (http_Error msg c x) = out x @ [Text (msg @ [CHR 0x0A])]"
  "upstream (http_Error msg c x) = upstream x"
  "code (http_Error msg c x) = Some (case code x of None \<Rightarrow> c | Some d \<Rightarrow> d)"
  by (simp_all add: http_Error_def split: option.splits)

lemma upstream_update_fields [simp]:
  "code (x\<lparr>upstream := u\<rparr>) = code x"
  "out (x\<lparr>upstream := u\<rparr>) = out x"
  "hdr (x\<lparr>upstream := u\<rparr>) = hdr x"
  by simp_all

lemma untouched_new_exchange: "untouched new_exchange"
  by (simp add: untouched_def new_exchange_def)

lemma setCORS_fields [simp]:
  "code (setCORS x) = code x"
  "out (setCORS x) = out x"
  "upstream (setCORS x) = upstream x"
  "hdr (setCORS x) ''Access-Control-Allow-Origin'' = Some ''*''"
  "hdr (setCORS x) ''Access-Control-Allow-Methods'' = Some ''GET, POST, PUT, DELETE, OPTIONS''"
  "hdr (setCORS x) ''Access-Control-Allow-Headers'' = Some ''Content-Type, Authorization''"
  by (simp_all add: setCORS_def Let_def)

text \<open>The middleware of \<^verbatim>\<open>main.go\<close> sets the same three headers as \<^verbatim>\<open>setCORS\<close>.\<close>

lemma corsMiddleware_setCORS:
  "corsMiddleware nxt r x =
     (if Method r = ''OPTIONS'' then WriteHeader 200 (setCORS x) else nxt r (setCORS x))"
  by (simp add: corsMiddleware_def setCORS_def Let_def)

lemma untouched_setCORS: "untouched x \<Longrightarrow> untouched (setCORS x)"
  by (simp add: untouched_def)

lemma preflight_reply_WriteHeader:
  "untouched x \<Longrightarrow> preflight_reply (WriteHeader 200 (setCORS x))"
  by (simp add: preflight_reply_def untouched_def client_status_def)

lemma find_catch_all:
  assumes "prefix ''/'' (Path r)" and "Method r \<noteq> ''GET''" and "Method r \<noteq> ''POST''"
  shows "map_option handler (find (\<lambda>rt. route_Match rt r) (routes w config))
       = Some (http_FileServer w)"
  using assms by (simp add: routes_def route_Match_def)

section \<open>Facts about canonical paths and the router\<close>

lemma path_Clean_rooted: "prefix ''/'' (path_Clean (CHR ''/'' # s))"
  by (simp add: path_Clean_def Let_def)

lemma cleanPath_rooted: "prefix ''/'' (cleanPath p)"
proof (cases "p = []")
  case True
  then show ?thesis by (simp add: cleanPath_def)
next
  case False
  then obtain a s where p: "p = a # s" by (cases p) auto
  show ?thesis
  proof (cases "a = CHR ''/''")
    case True
    with p path_Clean_rooted [of s] show ?thesis
      by (auto simp: cleanPath_def Let_def prefix_def)
  next
    case False
    with p path_Clean_rooted [of p] show ?thesis
      by (auto simp: cleanPath_def Let_def prefix_def)
  qed
qed

lemma canonical_rooted: "cleanPath p = p \<Longrightarrow> prefix ''/'' p"
  using cleanPath_rooted [of p] by simp

lemma cleanPath_fixed:
  "cleanPath ''/health'' = ''/health''"
  "cleanPath ''/api/health'' = ''/api/health''"
  "cleanPath ''/api/transform'' = ''/api/transform''"
  "cleanPath ''/api/news/headlines'' = ''/api/news/headlines''"
  "cleanPath ''/api/news/search'' = ''/api/news/search''"
  "cleanPath ''/no/such/path'' = ''/no/such/path''"
  "cleanPath ''/nothing'' = ''/nothing''"
  "cleanPath ''/'' = ''/''"
  by code_simp+

lemma cleanPath_moved:
  "cleanPath ''//health'' = ''/health''"
  "cleanPath ''//nothing'' = ''/nothing''"
  by code_simp+

lemma router_canonical:
  "cleanPath (Path r) = Path r \<Longrightarrow>
   router w config r x =
     (case find (\<lambda>rt. route_Match rt r) (routes w config) of
        None \<Rightarrow> http_Error ''404 page not found'' 404 x
      | Some rt \<Rightarrow> corsMiddleware (handler rt) r x)"
  by (simp add: router_def)

lemma router_redirect:
  "cleanPath (Path r) \<noteq> Path r \<Longrightarrow>
   router w config r x
     = WriteHeader 301 (Header_Set ''Location'' (url_String w r (cleanPath (Path r))) x)"
  by (simp add: router_def)

lemma loadConfig_api_stub: "loadConfig_api stub_world = Inr stub_config_api"
  by (simp add: loadConfig_api_def stub_world_def stub_config_api_def)

section \<open>Facts about the news handlers\<close>

lemma fetchNews_api_fetchNews:
  "fetchNews_api w endpoint ca
   = fetchNews w \<lparr>NewsAPIKey = NewsAPIKey_api ca, OpenAIAPIKey = OpenAIAPIKey_api ca, Port = []\<rparr> endpoint"
  by (simp add: fetchNews_api_def fetchNews_def)

lemma handleHeadlines_getTopHeadlines:
  "handleHeadlines w r ca x
   = getTopHeadlines w \<lparr>NewsAPIKey = NewsAPIKey_api ca, OpenAIAPIKey = OpenAIAPIKey_api ca, Port = []\<rparr> r x"
  by (simp add: handleHeadlines_def getTopHeadlines_def fetchNews_api_fetchNews Let_def)

lemma handleSearch_searchNews:
  "handleSearch w r ca x
   = searchNews w \<lparr>NewsAPIKey = NewsAPIKey_api ca, OpenAIAPIKey = OpenAIAPIKey_api ca, Port = []\<rparr> r x"
  by (simp add: handleSearch_def searchNews_def fetchNews_api_fetchNews Let_def)

lemma snd_fetchNews: "snd (fetchNews w config e) = [Get (news_url (NewsAPIKey config) e)]"
  by (simp add: fetchNews_def Let_def)


lemma fst_fetchNews_not_200:
  assumes "http_Get w (news_url (NewsAPIKey config) e) = Inr resp" "StatusCode resp \<noteq> 200"
  shows "\<exists>err. fst (fetchNews w config e) = Inl err"
  using assms by (simp add: fetchNews_def Let_def split: sum.splits)

lemma getTopHeadlines_unfold:
  "getTopHeadlines w config r x =
     (case fst (fetchNews w config (headlines_endpoint r)) of
        Inl err \<Rightarrow> http_Error (''Error fetching news: '' @ err) 500
          ((Header_Set ''Content-Type'' ''application/json'' x)
             \<lparr>upstream := upstream x @ [Get (news_url (NewsAPIKey config) (headlines_endpoint r))]\<rparr>)
      | Inr nr \<Rightarrow> Encode (NewsJSON nr)
          ((Header_Set ''Content-Type'' ''application/json'' x)
             \<lparr>upstream := upstream x @ [Get (news_url (NewsAPIKey config) (headlines_endpoint r))]\<rparr>))"
  by (simp add: getTopHeadlines_def Let_def case_prod_beta snd_fetchNews split: sum.splits)

lemma searchNews_unfold:
  "searchNews w config r x =
     (if Query_Get r ''q'' = []
      then http_Error ''Query parameter 'q' is required'' 400 (Header_Set ''Content-Type'' ''application/json'' x)
      else
       (case fst (fetchNews w config (''/everything?q='' @ Query_Get r ''q'')) of
        Inl err \<Rightarrow> http_Error (''Error searching news: '' @ err) 500
          ((Header_Set ''Content-Type'' ''application/json'' x)
             \<lparr>upstream := upstream x @ [Get (news_url (NewsAPIKey config) (''/everything?q='' @ Query_Get r ''q''))]\<rparr>)
      | Inr nr \<Rightarrow> Encode (NewsJSON nr)
          ((Header_Set ''Content-Type'' ''application/json'' x)
             \<lparr>upstream := upstream x @ [Get (news_url (NewsAPIKey config) (''/everything?q='' @ Query_Get r ''q''))]\<rparr>)))"
  by (simp add: searchNews_def Let_def case_prod_beta snd_fetchNews split: sum.splits)

lemma upstream_getTopHeadlines:
  "upstream (getTopHeadlines w config r x)
   = upstream x @ [Get (news_url (NewsAPIKey config) (headlines_endpoint r))]"
  by (simp add: getTopHeadlines_unfold split: sum.splits)

lemma upstream_searchNews:
  "upstream (searchNews w config r x)
   = (if Query_Get r ''q'' = [] then upstream x
      else upstream x @ [Get (news_url (NewsAPIKey config) (''/everything?q='' @ Query_Get r ''q''))])"
  by (simp add: searchNews_unfold split: sum.splits)



lemma getTopHeadlines_500:
  assumes "untouched x" "http_Get w u = Inr resp" "StatusCode resp \<noteq> 200"
    "Get u \<in> set (upstream (getTopHeadlines w config r x))"
  shows "client_status (getTopHeadlines w config r x) = 500"
proof -
  from assms(1,4) have u: "u = news_url (NewsAPIKey config) (headlines_endpoint r)"
    by (simp add: upstream_getTopHeadlines untouched_def)
  obtain err where "fst (fetchNews w config (headlines_endpoint r)) = Inl err"
    using fst_fetchNews_not_200 [OF assms(2) [unfolded u] assms(3)] by blast
  then show ?thesis
    using assms(1) by (simp add: getTopHeadlines_unfold untouched_def client_status_def)
qed

lemma searchNews_500:
  assumes "untouched x" "http_Get w u = Inr resp" "StatusCode resp \<noteq> 200"
    "Get u \<in> set (upstream (searchNews w config r x))"
  shows "client_status (searchNews w config r x) = 500"
proof -
  from assms(1,4) have q: "Query_Get r ''q'' \<noteq> []"
    by (auto simp: upstream_searchNews untouched_def split: if_splits)
  with assms(1,4) have u: "u = news_url (NewsAPIKey config) (''/everything?q='' @ Query_Get r ''q'')"
    by (simp add: upstream_searchNews untouched_def)
  obtain err where "fst (fetchNews w config (''/everything?q='' @ Query_Get r ''q'')) = Inl err"
    using fst_fetchNews_not_200 [OF assms(2) [unfolded u] assms(3)] by blast
  then show ?thesis
    using assms(1) q by (simp add: searchNews_unfold untouched_def client_status_def)
qed

section \<open>Facts about the transform handlers\<close>



lemma transformNews_sent:
  assumes "Method r = ''POST''" "json_Decode_requestData w (Body r) = Inr d"
    "json_Marshal w (openAIRequest (Title d) (Description d)) = Inr js"
    "http_NewRequest w ''POST'' completions_url js = Inr req0"
  shows "transformNews w config r x =
     (let y = (Header_Set ''Content-Type'' ''application/json'' x)
                \<lparr>upstream := upstream x @ [Do (authorize (OpenAIAPIKey config) req0)]\<rparr>
      in case client_Do w (authorize (OpenAIAPIKey config) req0) of
           Inl err \<Rightarrow> http_Error ''Error making request to OpenAI'' 500 y
         | Inr resp \<Rightarrow>
             if StatusCode resp \<noteq> 200 then http_Error ''Error from OpenAI API'' 500 y
             else (case Decode_OpenAIResponse w resp of
                     Inl err \<Rightarrow> http_Error ''Error parsing OpenAI response'' 500 y
                   | Inr openAIResponse \<Rightarrow>
                       (case Choices openAIResponse of
                          [] \<Rightarrow> http_Error ''No response from OpenAI'' 500 y
                        | c # _ \<Rightarrow> Encode (MapJSON [''transformedContent'' \<mapsto> Content (Message c)]) y)))"
  using assms by (simp add: transformNews_def Let_def split: sum.splits list.splits)

lemma transformContent_sent:
  assumes "json_Marshal w (openAIRequest T D) = Inr js"
    "http_NewRequest w ''POST'' completions_url js = Inr req0"
  shows "transformContent w T D ca =
     (case client_Do w (authorize (OpenAIAPIKey_api ca) req0) of
        Inl err \<Rightarrow> Inl err
      | Inr resp \<Rightarrow>
          if StatusCode resp \<noteq> 200
          then Inl (''OpenAI API returned status '' @ fmt_d (StatusCode resp))
          else (case Decode_OpenAIResponse w resp of
                  Inl err \<Rightarrow> Inl err
                | Inr openAIResponse \<Rightarrow>
                    (case Choices openAIResponse of
                       [] \<Rightarrow> Inl ''no response from OpenAI''
                     | c # _ \<Rightarrow> Inr [''transformedContent'' \<mapsto> Content (Message c)])),
      [Do (authorize (OpenAIAPIKey_api ca) req0)])"
  using assms by (simp add: transformContent_def Let_def split: sum.splits list.splits)

lemma handleTransform_sent:
  assumes "json_Decode_requestData w (Body r) = Inr d"
    "json_Marshal w (openAIRequest (Title d) (Description d)) = Inr js"
    "http_NewRequest w ''POST'' completions_url js = Inr req0"
  shows "handleTransform w r ca x =
     (let y = (Header_Set ''Content-Type'' ''application/json'' x)
                \<lparr>upstream := upstream x @ [Do (authorize (OpenAIAPIKey_api ca) req0)]\<rparr>
      in case client_Do w (authorize (OpenAIAPIKey_api ca) req0) of
           Inl err \<Rightarrow> http_Error ''Error transforming content'' 500 y
         | Inr resp \<Rightarrow>
             if StatusCode resp \<noteq> 200 then http_Error ''Error transforming content'' 500 y
             else (case Decode_OpenAIResponse w resp of
                     Inl err \<Rightarrow> http_Error ''Error transforming content'' 500 y
                   | Inr openAIResponse \<Rightarrow>
                       (case Choices openAIResponse of
                          [] \<Rightarrow> http_Error ''Error transforming content'' 500 y
                        | c # _ \<Rightarrow> Encode (MapJSON [''transformedContent'' \<mapsto> Content (Message c)]) y)))"
  using assms(1)
  by (simp add: handleTransform_def transformContent_sent [OF assms(2,3)] Let_def
      split: sum.splits list.splits)

text \<open>Which request, if any, a transform handler sends.\<close>

lemma upstream_transformNews:
  "upstream (transformNews w config r x) = upstream x \<or>
   (\<exists>d js req0. Method r = ''POST'' \<and> json_Decode_requestData w (Body r) = Inr d
      \<and> json_Marshal w (openAIRequest (Title d) (Description d)) = Inr js
      \<and> http_NewRequest w ''POST'' completions_url js = Inr req0
      \<and> upstream (transformNews w config r x) = upstream x @ [Do (authorize (OpenAIAPIKey config) req0)])"
  by (simp add: transformNews_def Let_def split: sum.splits list.splits)

lemma upstream_handleTransform:
  "upstream (handleTransform w r ca x) = upstream x \<or>
   (\<exists>d js req0. json_Decode_requestData w (Body r) = Inr d
      \<and> json_Marshal w (openAIRequest (Title d) (Description d)) = Inr js
      \<and> http_NewRequest w ''POST'' completions_url js = Inr req0
      \<and> upstream (handleTransform w r ca x) = upstream x @ [Do (authorize (OpenAIAPIKey_api ca) req0)])"
  by (simp add: handleTransform_def transformContent_def Let_def split: sum.splits list.splits)

lemma transformNews_500:
  assumes "untouched x" "client_Do w q = Inr resp" "StatusCode resp \<noteq> 200"
    "Do q \<in> set (upstream (transformNews w config r x))"
  shows "client_status (transformNews w config r x) = 500"
proof -
  from upstream_transformNews [of w config r x] assms(1,4)
  obtain d js req0 where *: "Method r = ''POST''" "json_Decode_requestData w (Body r) = Inr d"
      "json_Marshal w (openAIRequest (Title d) (Description d)) = Inr js"
      "http_NewRequest w ''POST'' completions_url js = Inr req0"
    and u: "upstream (transformNews w config r x) = upstream x @ [Do (authorize (OpenAIAPIKey config) req0)]"
    by (auto simp: untouched_def)
  from u assms(1,4) have q: "q = authorize (OpenAIAPIKey config) req0"
    by (simp add: untouched_def)
  show ?thesis
    using assms(1-3) unfolding q
    by (simp add: transformNews_sent [OF *] Let_def untouched_def client_status_def)
qed

lemma handleTransform_500:
  assumes "untouched x" "client_Do w q = Inr resp" "StatusCode resp \<noteq> 200"
    "Do q \<in> set (upstream (handleTransform w r ca x))"
  shows "client_status (handleTransform w r ca x) = 500"
proof -
  from upstream_handleTransform [of w r ca x] assms(1,4)
  obtain d js req0 where *: "json_Decode_requestData w (Body r) = Inr d"
      "json_Marshal w (openAIRequest (Title d) (Description d)) = Inr js"
      "http_NewRequest w ''POST'' completions_url js = Inr req0"
    and u: "upstream (handleTransform w r ca x) = upstream x @ [Do (authorize (OpenAIAPIKey_api ca) req0)]"
    by (auto simp: untouched_def)
  from u assms(1,4) have q: "q = authorize (OpenAIAPIKey_api ca) req0"
    by (simp add: untouched_def)
  show ?thesis
    using assms(1-3) unfolding q
    by (simp add: handleTransform_sent [OF *] Let_def untouched_def client_status_def)
qed







section \<open>Calls and answers together\<close>



lemma getTopHeadlines_500_at:
  assumes "untouched x"
    and "http_Get w (news_url (NewsAPIKey config) (headlines_endpoint r)) = Inr resp"
    and "StatusCode resp \<noteq> 200"
  shows "upstream (getTopHeadlines w config r x) = [Get (news_url (NewsAPIKey config) (headlines_endpoint r))]
       \<and> client_status (getTopHeadlines w config r x) = 500"
proof -
  have u: "upstream (getTopHeadlines w config r x)
      = [Get (news_url (NewsAPIKey config) (headlines_endpoint r))]"
    using assms(1) by (simp add: upstream_getTopHeadlines untouched_def)
  then have "Get (news_url (NewsAPIKey config) (headlines_endpoint r))
      \<in> set (upstream (getTopHeadlines w config r x))"
    by simp
  from getTopHeadlines_500 [OF assms this] u show ?thesis
    by blast
qed

lemma searchNews_500_at:
  assumes "untouched x" and "Query_Get r ''q'' \<noteq> []"
    and "http_Get w (news_url (NewsAPIKey config) (''/everything?q='' @ Query_Get r ''q'')) = Inr resp"
    and "StatusCode resp \<noteq> 200"
  shows "upstream (searchNews w config r x)
           = [Get (news_url (NewsAPIKey config) (''/everything?q='' @ Query_Get r ''q''))]
       \<and> client_status (searchNews w config r x) = 500"
proof -
  have u: "upstream (searchNews w config r x)
      = [Get (news_url (NewsAPIKey config) (''/everything?q='' @ Query_Get r ''q''))]"
    using assms(1,2) by (simp add: upstream_searchNews untouched_def)
  then have "Get (news_url (NewsAPIKey config) (''/everything?q='' @ Query_Get r ''q''))
      \<in> set (upstream (searchNews w config r x))"
    by simp
  from searchNews_500 [OF assms(1,3,4) this] u show ?thesis
    by blast
qed

lemma transformNews_500_at:
  assumes "untouched x" and "Method r = ''POST''"
    and "json_Decode_requestData w (Body r) = Inr d"
    and "json_Marshal w (openAIRequest (Title d) (Description d)) = Inr js"
    and "http_NewRequest w ''POST'' completions_url js = Inr req0"
    and "client_Do w (authorize (OpenAIAPIKey config) req0) = Inr resp"
    and "StatusCode resp \<noteq> 200"
  shows "upstream (transformNews w config r x) = [Do (authorize (OpenAIAPIKey config) req0)]
       \<and> client_status (transformNews w config r x) = 500"
  using assms(1,6,7)
  by (simp add: transformNews_sent [OF assms(2-5)] Let_def untouched_def client_status_def)

lemma handleTransform_500_at:
  assumes "untouched x"
    and "json_Decode_requestData w (Body r) = Inr d"
    and "json_Marshal w (openAIRequest (Title d) (Description d)) = Inr js"
    and "http_NewRequest w ''POST'' completions_url js = Inr req0"
    and "client_Do w (authorize (OpenAIAPIKey_api ca) req0) = Inr resp"
    and "StatusCode resp \<noteq> 200"
  shows "upstream (handleTransform w r ca x) = [Do (authorize (OpenAIAPIKey_api ca) req0)]
       \<and> client_status (handleTransform w r ca x) = 500"
  using assms(1,5,6)
  by (simp add: handleTransform_sent [OF assms(2-4)] Let_def untouched_def client_status_def)


section \<open>Facts about the configuration\<close>

lemma loadConfig_missing:
  assumes "os_Getenv w ''NEWS_API_KEY'' = [] \<or> os_Getenv w ''OPENAI_API_KEY'' = []"
  shows "\<exists>err. loadConfig w = Inl err" and "\<exists>err. loadConfig_api w = Inl err"
  using assms by (auto simp: loadConfig_def loadConfig_api_def Let_def)

text \<open>No handler behind the router of \<^verbatim>\<open>main.go\<close> reads the environment.\<close>

lemma router_ignores_environment:
  "router (w\<lparr>os_Getenv := g\<rparr>) config = router w config"
proof -
  have "getTopHeadlines (w\<lparr>os_Getenv := g\<rparr>) config = getTopHeadlines w config"
    by (intro ext) (simp add: getTopHeadlines_def fetchNews_def Let_def cong del: sum.case_cong_weak if_weak_cong)
  moreover have "searchNews (w\<lparr>os_Getenv := g\<rparr>) config = searchNews w config"
    by (intro ext) (simp add: searchNews_def fetchNews_def Let_def cong del: sum.case_cong_weak if_weak_cong)
  moreover have "transformNews (w\<lparr>os_Getenv := g\<rparr>) config = transformNews w config"
    by (intro ext) (simp add: transformNews_def Decode_OpenAIResponse_def Let_def
        cong del: sum.case_cong_weak list.case_cong_weak if_weak_cong)
  moreover have "healthCheck (w\<lparr>os_Getenv := g\<rparr>) = healthCheck w"
    by (intro ext) (simp add: healthCheck_def Let_def)
  ultimately have "routes (w\<lparr>os_Getenv := g\<rparr>) config = routes w config"
    by (simp add: routes_def)
  then show ?thesis
    by (intro ext) (simp add: router_def Let_def)
qed

section \<open>Facts about the test doubles\<close>

text \<open>The calls made for two fixed requests.\<close>

lemma stub_headlines_call:
  "upstream (getTopHeadlines w stub_config (stub_request ''GET'' ''/api/news/headlines'' [] []) new_exchange)
   = [Get ''https://newsapi.org/v2/top-headlines?country=us&apiKey=N'']"
  by (simp add: upstream_getTopHeadlines new_exchange_def stub_request_def stub_config_def Query_Get_def)

lemma stub_search_call:
  "upstream (searchNews w stub_config (stub_request ''GET'' ''/api/news/search'' [(''q'', ''x'')] []) new_exchange)
   = [Get ''https://newsapi.org/v2/everything?q=x&apiKey=N'']"
  by (simp add: upstream_searchNews new_exchange_def stub_request_def stub_config_def Query_Get_def)

lemma stub_headlines_call_api:
  "upstream (handleHeadlines w (stub_request ''GET'' ''/api/news/headlines'' [] []) stub_config_api new_exchange)
   = [Get ''https://newsapi.org/v2/top-headlines?country=us&apiKey=N'']"
  by (simp add: handleHeadlines_getTopHeadlines upstream_getTopHeadlines new_exchange_def
      stub_request_def stub_config_api_def Query_Get_def)

lemma stub_search_call_api:
  "upstream (handleSearch w (stub_request ''GET'' ''/api/news/search'' [(''q'', ''x'')] []) stub_config_api new_exchange)
   = [Get ''https://newsapi.org/v2/everything?q=x&apiKey=N'']"
  by (simp add: handleSearch_searchNews upstream_searchNews new_exchange_def
      stub_request_def stub_config_api_def Query_Get_def)

lemma stub_transform_call:
  "upstream (transformNews stub_world_500 stub_config (stub_request ''POST'' ''/api/transform'' [] ''b'') new_exchange)
   = [Do stub_completion_request]"
  by (simp add: transformNews_def stub_world_500_def stub_world_def stub_config_def stub_request_def
      new_exchange_def stub_completion_request_def Let_def)

lemma stub_transform_call_api:
  "upstream (handleTransform stub_world_500 (stub_request ''POST'' ''/api/transform'' [] ''b'') stub_config_api new_exchange)
   = [Do stub_completion_request]"
  by (simp add: handleTransform_def transformContent_def stub_world_500_def stub_world_def
      stub_config_api_def stub_request_def new_exchange_def stub_completion_request_def Let_def)

lemma stub_marshal:
  "json_Marshal stub_world q = Inr (concat (map Message.Content (Messages q)))"
  by (simp add: stub_world_def)

lemma stub_NewRequest:
  "http_NewRequest stub_world m u b
   = Inr \<lparr>req_Method = m, req_URL = u, req_Header = Map.empty, req_Body = b\<rparr>"
  by (simp add: stub_world_def)


section \<open>Search without a query\<close>

text \<open>
  C1. A search request whose parameter \<open>q\<close> is absent or empty is answered 400 by the search
  handler of either variant (\<^verbatim>\<open>searchNews\<close>, \<^verbatim>\<open>handleSearch\<close>), and the handler makes no
  upstream call.
\<close>

theorem search_without_query_is_400:
  assumes "map_of (Query r) ''q'' = None \<or> map_of (Query r) ''q'' = Some []"
    and "untouched x"
  shows "client_status (searchNews w config r x) = 400
       \<and> upstream (searchNews w config r x) = []
       \<and> client_status (handleSearch w r config_api x) = 400
       \<and> upstream (handleSearch w r config_api x) = []"
proof -
  from assms(1) have q: "Query_Get r ''q'' = []"
    by (auto simp: Query_Get_def)
  from assms(2) have x: "code x = None" "upstream x = []"
    by (simp_all add: untouched_def)
  show ?thesis
    using q x by (simp add: searchNews_def handleSearch_def client_status_def)
qed

theorem search_without_query_is_400_witness:
  "map_of (Query (stub_request ''GET'' ''/api/news/search'' [] [])) ''q'' = None
   \<and> map_of (Query (stub_request ''GET'' ''/api/news/search'' [(''q'', [])] [])) ''q'' = Some []
   \<and> untouched new_exchange
   \<and> client_status (searchNews stub_world stub_config
        (stub_request ''GET'' ''/api/news/search'' [] []) new_exchange) = 400
   \<and> upstream (searchNews stub_world stub_config
        (stub_request ''GET'' ''/api/news/search'' [] []) new_exchange) = []
   \<and> client_status (handleSearch stub_world
        (stub_request ''GET'' ''/api/news/search'' [(''q'', [])] []) stub_config_api new_exchange) = 400
   \<and> upstream (handleSearch stub_world
        (stub_request ''GET'' ''/api/news/search'' [(''q'', [])] []) stub_config_api new_exchange) = []"
proof -
  have a: "map_of (Query (stub_request ''GET'' ''/api/news/search'' [] [])) ''q'' = None"
    by (simp add: stub_request_def)
  have b: "map_of (Query (stub_request ''GET'' ''/api/news/search'' [(''q'', [])] [])) ''q'' = Some []"
    by (simp add: stub_request_def)
  show ?thesis
    using a b untouched_new_exchange
      search_without_query_is_400 [where w = stub_world and config = stub_config,
        OF disjI1 [OF a] untouched_new_exchange]
      search_without_query_is_400 [where w = stub_world and config_api = stub_config_api,
        OF disjI2 [OF b] untouched_new_exchange]
    by simp
qed

section \<open>Transforming a headline\<close>



section \<open>Upstream failures\<close>

text \<open>
  C3 as stated fails: the handlers answer every failed upstream call with the constant 500,
  so an upstream that itself answers 500 is matched by the client-facing status. Here the
  news upstream answers 500 and so does \<^verbatim>\<open>getTopHeadlines\<close>.
\<close>

theorem upstream_500_meets_client_500:
  "http_Get stub_world_500 ''https://newsapi.org/v2/top-headlines?country=us&apiKey=N''
     = Inr \<lparr>StatusCode = 500, RespBody = Inr []\<rparr>
   \<and> upstream (getTopHeadlines stub_world_500 stub_config
        (stub_request ''GET'' ''/api/news/headlines'' [] []) new_exchange)
     = [Get ''https://newsapi.org/v2/top-headlines?country=us&apiKey=N'']
   \<and> client_status (getTopHeadlines stub_world_500 stub_config
        (stub_request ''GET'' ''/api/news/headlines'' [] []) new_exchange) = 500"
  by (simp add: getTopHeadlines_unfold fetchNews_def stub_world_500_def stub_world_def
      stub_config_def stub_request_def new_exchange_def Query_Get_def client_status_def Let_def)

text \<open>
  C3, amended. Every upstream call that a handler makes (news fetch or completion, either
  variant) and that is answered with a status other than 200 ends in the client-facing
  status 500, whatever the upstream status was. The first six parts say so of any call in
  the handler's list of calls, each on its own premises; the last six say that the call is
  made, to the URL or with the request that the handler builds, and answered 500.
\<close>

theorem upstream_failure_is_500:
  assumes "untouched x"
  shows "(Get u \<in> set (upstream (getTopHeadlines w config r x))
            \<and> http_Get w u = Inr resp \<and> StatusCode resp \<noteq> 200 \<longrightarrow>
            client_status (getTopHeadlines w config r x) = 500)
       \<and> (Get u \<in> set (upstream (searchNews w config r x))
            \<and> http_Get w u = Inr resp \<and> StatusCode resp \<noteq> 200 \<longrightarrow>
            client_status (searchNews w config r x) = 500)
       \<and> (Do q \<in> set (upstream (transformNews w config r x))
            \<and> client_Do w q = Inr resp \<and> StatusCode resp \<noteq> 200 \<longrightarrow>
            client_status (transformNews w config r x) = 500)
       \<and> (Get u \<in> set (upstream (handleHeadlines w r ca x))
            \<and> http_Get w u = Inr resp \<and> StatusCode resp \<noteq> 200 \<longrightarrow>
            client_status (handleHeadlines w r ca x) = 500)
       \<and> (Get u \<in> set (upstream (handleSearch w r ca x))
            \<and> http_Get w u = Inr resp \<and> StatusCode resp \<noteq> 200 \<longrightarrow>
            client_status (handleSearch w r ca x) = 500)
       \<and> (Do q \<in> set (upstream (handleTransform w r ca x))
            \<and> client_Do w q = Inr resp \<and> StatusCode resp \<noteq> 200 \<longrightarrow>
            client_status (handleTransform w r ca x) = 500)
       \<and> (http_Get w (news_url (NewsAPIKey config) (headlines_endpoint r)) = Inr resp
            \<and> StatusCode resp \<noteq> 200 \<longrightarrow>
            upstream (getTopHeadlines w config r x)
              = [Get (news_url (NewsAPIKey config) (headlines_endpoint r))]
          \<and> client_status (getTopHeadlines w config r x) = 500)
       \<and> (Query_Get r ''q'' \<noteq> []
            \<and> http_Get w (news_url (NewsAPIKey config) (''/everything?q='' @ Query_Get r ''q'')) = Inr resp
            \<and> StatusCode resp \<noteq> 200 \<longrightarrow>
            upstream (searchNews w config r x)
              = [Get (news_url (NewsAPIKey config) (''/everything?q='' @ Query_Get r ''q''))]
          \<and> client_status (searchNews w config r x) = 500)
       \<and> (Method r = ''POST'' \<and> json_Decode_requestData w (Body r) = Inr d
            \<and> json_Marshal w (openAIRequest (Title d) (Description d)) = Inr js
            \<and> http_NewRequest w ''POST'' completions_url js = Inr rq
            \<and> client_Do w (authorize (OpenAIAPIKey config) rq) = Inr resp
            \<and> StatusCode resp \<noteq> 200 \<longrightarrow>
            upstream (transformNews w config r x) = [Do (authorize (OpenAIAPIKey config) rq)]
          \<and> client_status (transformNews w config r x) = 500)
       \<and> (http_Get w (news_url (NewsAPIKey_api ca) (headlines_endpoint r)) = Inr resp
            \<and> StatusCode resp \<noteq> 200 \<longrightarrow>
            upstream (handleHeadlines w r ca x)
              = [Get (news_url (NewsAPIKey_api ca) (headlines_endpoint r))]
          \<and> client_status (handleHeadlines w r ca x) = 500)
       \<and> (Query_Get r ''q'' \<noteq> []
            \<and> http_Get w (news_url (NewsAPIKey_api ca) (''/everything?q='' @ Query_Get r ''q'')) = Inr resp
            \<and> StatusCode resp \<noteq> 200 \<longrightarrow>
            upstream (handleSearch w r ca x)
              = [Get (news_url (NewsAPIKey_api ca) (''/everything?q='' @ Query_Get r ''q''))]
          \<and> client_status (handleSearch w r ca x) = 500)
       \<and> (json_Decode_requestData w (Body r) = Inr d
            \<and> json_Marshal w (openAIRequest (Title d) (Description d)) = Inr js
            \<and> http_NewRequest w ''POST'' completions_url js = Inr rq
            \<and> client_Do w (authorize (OpenAIAPIKey_api ca) rq) = Inr resp
            \<and> StatusCode resp \<noteq> 200 \<longrightarrow>
            upstream (handleTransform w r ca x) = [Do (authorize (OpenAIAPIKey_api ca) rq)]
          \<and> client_status (handleTransform w r ca x) = 500)"
proof -
  let ?c = "\<lparr>NewsAPIKey = NewsAPIKey_api ca, OpenAIAPIKey = OpenAIAPIKey_api ca, Port = []\<rparr>"
  have k: "NewsAPIKey ?c = NewsAPIKey_api ca"
    by simp
  have m1: "Get u \<in> set (upstream (getTopHeadlines w c r x))
      \<and> http_Get w u = Inr resp \<and> StatusCode resp \<noteq> 200 \<longrightarrow>
      client_status (getTopHeadlines w c r x) = 500" for c
    using getTopHeadlines_500 [OF assms] by blast
  have m2: "Get u \<in> set (upstream (searchNews w c r x))
      \<and> http_Get w u = Inr resp \<and> StatusCode resp \<noteq> 200 \<longrightarrow>
      client_status (searchNews w c r x) = 500" for c
    using searchNews_500 [OF assms] by blast
  have m3: "Do q \<in> set (upstream (transformNews w config r x))
      \<and> client_Do w q = Inr resp \<and> StatusCode resp \<noteq> 200 \<longrightarrow>
      client_status (transformNews w config r x) = 500"
    using transformNews_500 [OF assms] by blast
  have m6: "Do q \<in> set (upstream (handleTransform w r ca x))
      \<and> client_Do w q = Inr resp \<and> StatusCode resp \<noteq> 200 \<longrightarrow>
      client_status (handleTransform w r ca x) = 500"
    using handleTransform_500 [OF assms] by blast
  have a1: "http_Get w (news_url (NewsAPIKey c) (headlines_endpoint r)) = Inr resp
      \<and> StatusCode resp \<noteq> 200 \<longrightarrow>
      upstream (getTopHeadlines w c r x) = [Get (news_url (NewsAPIKey c) (headlines_endpoint r))]
      \<and> client_status (getTopHeadlines w c r x) = 500" for c
    using getTopHeadlines_500_at [OF assms] by blast
  have a2: "Query_Get r ''q'' \<noteq> []
      \<and> http_Get w (news_url (NewsAPIKey c) (''/everything?q='' @ Query_Get r ''q'')) = Inr resp
      \<and> StatusCode resp \<noteq> 200 \<longrightarrow>
      upstream (searchNews w c r x)
        = [Get (news_url (NewsAPIKey c) (''/everything?q='' @ Query_Get r ''q''))]
      \<and> client_status (searchNews w c r x) = 500" for c
    using searchNews_500_at [OF assms] by blast
  have a3: "Method r = ''POST'' \<and> json_Decode_requestData w (Body r) = Inr d
      \<and> json_Marshal w (openAIRequest (Title d) (Description d)) = Inr js
      \<and> http_NewRequest w ''POST'' completions_url js = Inr rq
      \<and> client_Do w (authorize (OpenAIAPIKey config) rq) = Inr resp
      \<and> StatusCode resp \<noteq> 200 \<longrightarrow>
      upstream (transformNews w config r x) = [Do (authorize (OpenAIAPIKey config) rq)]
      \<and> client_status (transformNews w config r x) = 500"
    using transformNews_500_at [OF assms] by blast
  have a6: "json_Decode_requestData w (Body r) = Inr d
      \<and> json_Marshal w (openAIRequest (Title d) (Description d)) = Inr js
      \<and> http_NewRequest w ''POST'' completions_url js = Inr rq
      \<and> client_Do w (authorize (OpenAIAPIKey_api ca) rq) = Inr resp
      \<and> StatusCode resp \<noteq> 200 \<longrightarrow>
      upstream (handleTransform w r ca x) = [Do (authorize (OpenAIAPIKey_api ca) rq)]
      \<and> client_status (handleTransform w r ca x) = 500"
    using handleTransform_500_at [OF assms] by blast
  show ?thesis
    unfolding handleHeadlines_getTopHeadlines handleSearch_searchNews
    using m1 [of config] m2 [of config] m3 m1 [of ?c] m2 [of ?c] m6
      a1 [of config] a2 [of config] a3 a1 [of ?c, unfolded k] a2 [of ?c, unfolded k] a6
    by (intro conjI)
qed


theorem upstream_failure_is_500_witness:
  "untouched new_exchange
   \<and> http_Get stub_world_500 ''https://newsapi.org/v2/top-headlines?country=us&apiKey=N''
       = Inr \<lparr>StatusCode = 500, RespBody = Inr []\<rparr>
   \<and> http_Get stub_world_500 ''https://newsapi.org/v2/everything?q=x&apiKey=N''
       = Inr \<lparr>StatusCode = 500, RespBody = Inr []\<rparr>
   \<and> client_Do stub_world_500 stub_completion_request = Inr \<lparr>StatusCode = 500, RespBody = Inr []\<rparr>
   \<and> StatusCode \<lparr>StatusCode = 500, RespBody = Inr []\<rparr> \<noteq> 200
   \<and> Get ''https://newsapi.org/v2/everything?q=x&apiKey=N''
       \<in> set (upstream (searchNews stub_world_500 stub_config
            (stub_request ''GET'' ''/api/news/search'' [(''q'', ''x'')] []) new_exchange))
   \<and> Do stub_completion_request
       \<in> set (upstream (transformNews stub_world_500 stub_config
            (stub_request ''POST'' ''/api/transform'' [] ''b'') new_exchange))
   \<and> client_status (getTopHeadlines stub_world_500 stub_config
        (stub_request ''GET'' ''/api/news/headlines'' [] []) new_exchange) = 500
   \<and> client_status (searchNews stub_world_500 stub_config
        (stub_request ''GET'' ''/api/news/search'' [(''q'', ''x'')] []) new_exchange) = 500
   \<and> client_status (transformNews stub_world_500 stub_config
        (stub_request ''POST'' ''/api/transform'' [] ''b'') new_exchange) = 500
   \<and> client_status (handleHeadlines stub_world_500
        (stub_request ''GET'' ''/api/news/headlines'' [] []) stub_config_api new_exchange) = 500
   \<and> client_status (handleSearch stub_world_500
        (stub_request ''GET'' ''/api/news/search'' [(''q'', ''x'')] []) stub_config_api new_exchange) = 500
   \<and> client_status (handleTransform stub_world_500
        (stub_request ''POST'' ''/api/transform'' [] ''b'') stub_config_api new_exchange) = 500
   \<and> upstream (getTopHeadlines stub_world_500 stub_config
        (stub_request ''GET'' ''/api/news/headlines'' [] []) new_exchange)
       = [Get ''https://newsapi.org/v2/top-headlines?country=us&apiKey=N'']
   \<and> upstream (handleSearch stub_world_500
        (stub_request ''GET'' ''/api/news/search'' [(''q'', ''x'')] []) stub_config_api new_exchange)
       = [Get ''https://newsapi.org/v2/everything?q=x&apiKey=N'']
   \<and> upstream (handleTransform stub_world_500
        (stub_request ''POST'' ''/api/transform'' [] ''b'') stub_config_api new_exchange)
       = [Do stub_completion_request]"
proof -
  let ?h = "stub_request ''GET'' ''/api/news/headlines'' [] []"
  let ?s = "stub_request ''GET'' ''/api/news/search'' [(''q'', ''x'')] []"
  let ?t = "stub_request ''POST'' ''/api/transform'' [] ''b''"
  let ?resp = "\<lparr>StatusCode = 500, RespBody = Inr []\<rparr>"
  let ?d = "\<lparr>Title = ''T'', Description = ''D''\<rparr>"
  let ?js = "concat (map Message.Content (Messages (openAIRequest ''T'' ''D'')))"
  let ?req0 = "\<lparr>req_Method = ''POST'', req_URL = completions_url, req_Header = Map.empty,
      req_Body = ?js\<rparr>"
  have g: "http_Get stub_world_500 v = Inr ?resp" for v
    by (simp add: stub_world_500_def)
  have c: "client_Do stub_world_500 v = Inr ?resp" for v
    by (simp add: stub_world_500_def)
  have s: "StatusCode ?resp \<noteq> 200"
    by simp
  have q: "Query_Get ?s ''q'' \<noteq> []"
    by (simp add: Query_Get_def stub_request_def)
  have p: "Method ?t = ''POST''"
    by (simp add: stub_request_def)
  have d: "json_Decode_requestData stub_world_500 (Body ?t) = Inr ?d"
    by (simp add: stub_world_500_def stub_world_def stub_request_def)
  have m: "json_Marshal stub_world_500 (openAIRequest (Title ?d) (Description ?d)) = Inr ?js"
    by (simp add: stub_world_500_def stub_marshal)
  have n: "http_NewRequest stub_world_500 ''POST'' completions_url ?js = Inr ?req0"
    by (simp add: stub_world_500_def stub_NewRequest)
  have e: "authorize (OpenAIAPIKey stub_config) ?req0 = stub_completion_request"
    "authorize (OpenAIAPIKey_api stub_config_api) ?req0 = stub_completion_request"
    by (simp_all add: stub_completion_request_def stub_config_def stub_config_api_def)
  have e1: "news_url (NewsAPIKey stub_config) (headlines_endpoint ?h)
      = ''https://newsapi.org/v2/top-headlines?country=us&apiKey=N''"
    "news_url (NewsAPIKey_api stub_config_api) (headlines_endpoint ?h)
      = ''https://newsapi.org/v2/top-headlines?country=us&apiKey=N''"
    by (simp_all add: stub_config_def stub_config_api_def stub_request_def Query_Get_def)
  have e2: "news_url (NewsAPIKey stub_config) (''/everything?q='' @ Query_Get ?s ''q'')
      = ''https://newsapi.org/v2/everything?q=x&apiKey=N''"
    "news_url (NewsAPIKey_api stub_config_api) (''/everything?q='' @ Query_Get ?s ''q'')
      = ''https://newsapi.org/v2/everything?q=x&apiKey=N''"
    by (simp_all add: stub_config_def stub_config_api_def stub_request_def Query_Get_def)
  have uh: "Get ''https://newsapi.org/v2/top-headlines?country=us&apiKey=N''
      \<in> set (upstream (getTopHeadlines stub_world_500 stub_config ?h new_exchange))"
    "Get ''https://newsapi.org/v2/top-headlines?country=us&apiKey=N''
      \<in> set (upstream (handleHeadlines stub_world_500 ?h stub_config_api new_exchange))"
    by (simp_all add: stub_headlines_call stub_headlines_call_api)
  have us: "Get ''https://newsapi.org/v2/everything?q=x&apiKey=N''
      \<in> set (upstream (searchNews stub_world_500 stub_config ?s new_exchange))"
    "Get ''https://newsapi.org/v2/everything?q=x&apiKey=N''
      \<in> set (upstream (handleSearch stub_world_500 ?s stub_config_api new_exchange))"
    by (simp_all add: stub_search_call stub_search_call_api)
  have ut: "Do stub_completion_request
      \<in> set (upstream (transformNews stub_world_500 stub_config ?t new_exchange))"
    "Do stub_completion_request
      \<in> set (upstream (handleTransform stub_world_500 ?t stub_config_api new_exchange))"
    by (simp_all add: stub_transform_call stub_transform_call_api)
  note a = upstream_failure_is_500 [OF untouched_new_exchange, where w = stub_world_500
      and config = stub_config and ca = stub_config_api and resp = ?resp
      and q = stub_completion_request and d = ?d and js = ?js and rq = ?req0]
  note h = a [where r = ?h and u = "''https://newsapi.org/v2/top-headlines?country=us&apiKey=N''",
      unfolded e1]
  note t = a [where r = ?s and u = "''https://newsapi.org/v2/everything?q=x&apiKey=N''",
      unfolded e2]
  note f = a [where r = ?t, unfolded e]
  have 1: "client_status (getTopHeadlines stub_world_500 stub_config ?h new_exchange) = 500"
    using h [THEN conjunct1] uh(1) g s by blast
  have 2: "client_status (searchNews stub_world_500 stub_config ?s new_exchange) = 500"
    using t [THEN conjunct2, THEN conjunct1] us(1) g s by blast
  have 3: "client_status (transformNews stub_world_500 stub_config ?t new_exchange) = 500"
    using f [THEN conjunct2, THEN conjunct2, THEN conjunct1] ut(1) c s by blast
  have 4: "client_status (handleHeadlines stub_world_500 ?h stub_config_api new_exchange) = 500"
    using h [THEN conjunct2, THEN conjunct2, THEN conjunct2, THEN conjunct1] uh(2) g s by blast
  have 5: "client_status (handleSearch stub_world_500 ?s stub_config_api new_exchange) = 500"
    using t [THEN conjunct2, THEN conjunct2, THEN conjunct2, THEN conjunct2, THEN conjunct1]
      us(2) g s by blast
  have 6: "client_status (handleTransform stub_world_500 ?t stub_config_api new_exchange) = 500"
    using f [THEN conjunct2, THEN conjunct2, THEN conjunct2, THEN conjunct2, THEN conjunct2,
        THEN conjunct1] ut(2) c s by blast
  note h' = h [THEN conjunct2, THEN conjunct2, THEN conjunct2, THEN conjunct2, THEN conjunct2,
      THEN conjunct2]
  note t' = t [THEN conjunct2, THEN conjunct2, THEN conjunct2, THEN conjunct2, THEN conjunct2,
      THEN conjunct2]
  note f' = f [THEN conjunct2, THEN conjunct2, THEN conjunct2, THEN conjunct2, THEN conjunct2,
      THEN conjunct2]
  have 7: "upstream (getTopHeadlines stub_world_500 stub_config ?h new_exchange)
      = [Get ''https://newsapi.org/v2/top-headlines?country=us&apiKey=N'']"
    using h' [THEN conjunct1] g s by blast
  have 8: "upstream (searchNews stub_world_500 stub_config ?s new_exchange)
      = [Get ''https://newsapi.org/v2/everything?q=x&apiKey=N'']"
    using t' [THEN conjunct2, THEN conjunct1] q g s by blast
  have 9: "upstream (transformNews stub_world_500 stub_config ?t new_exchange)
      = [Do stub_completion_request]"
    using f' [THEN conjunct2, THEN conjunct2, THEN conjunct1] p d m n c s by blast
  have 10: "upstream (handleHeadlines stub_world_500 ?h stub_config_api new_exchange)
      = [Get ''https://newsapi.org/v2/top-headlines?country=us&apiKey=N'']"
    using h' [THEN conjunct2, THEN conjunct2, THEN conjunct2, THEN conjunct1] g s by blast
  have 11: "upstream (handleSearch stub_world_500 ?s stub_config_api new_exchange)
      = [Get ''https://newsapi.org/v2/everything?q=x&apiKey=N'']"
    using t' [THEN conjunct2, THEN conjunct2, THEN conjunct2, THEN conjunct2, THEN conjunct1]
      q g s by blast
  have 12: "upstream (handleTransform stub_world_500 ?t stub_config_api new_exchange)
      = [Do stub_completion_request]"
    using f' [THEN conjunct2, THEN conjunct2, THEN conjunct2, THEN conjunct2, THEN conjunct2]
      d m n c s by blast
  show ?thesis
    using 1 2 3 4 5 6 7 8 9 10 11 12 untouched_new_exchange g c s us(1) ut(1)
    by (intro conjI)
qed

section \<open>Missing credentials\<close>

text \<open>
  C4 as stated fails for the serverless function: with an empty environment \<^verbatim>\<open>Handler\<close>
  still answers requests, a preflight with 200 and any other request with 500, so the
  credentials are checked while serving a request and not before the first one.
\<close>

theorem serverless_checks_credentials_per_request:
  "os_Getenv stub_world_noenv ''NEWS_API_KEY'' = []
   \<and> client_status (Handler stub_world_noenv
        (stub_request ''OPTIONS'' ''/api/health'' [] []) new_exchange) = 200
   \<and> client_status (Handler stub_world_noenv
        (stub_request ''GET'' ''/api/health'' [] []) new_exchange) = 500
   \<and> out (Handler stub_world_noenv (stub_request ''GET'' ''/api/health'' [] []) new_exchange)
       = [Text (''Server configuration error'' @ [CHR 0x0A])]"
  by (simp add: Handler_def loadConfig_api_def stub_world_noenv_def stub_world_def stub_request_def
      new_exchange_def client_status_def Let_def)

text \<open>
  C4, amended. In \<^verbatim>\<open>main.go\<close>, when either credential is empty or absent, \<^verbatim>\<open>main\<close> exits
  before the router exists and no request is ever answered; the environment is read at
  startup only (the router that is served does not depend on it). The serverless \<^verbatim>\<open>Handler\<close>
  reads the credentials on every request other than OPTIONS and, when one is missing,
  answers that request with 500 and \<open>Server configuration error\<close>, making no upstream call.
\<close>

theorem missing_credentials:
  assumes "os_Getenv w ''NEWS_API_KEY'' = [] \<or> os_Getenv w ''OPENAI_API_KEY'' = []"
  shows "(\<exists>msg. main w = Exited msg)
       \<and> answer (main w) r = None
       \<and> router (w\<lparr>os_Getenv := g\<rparr>) config = router w config
       \<and> (Method r \<noteq> ''OPTIONS'' \<and> untouched x \<longrightarrow>
            client_status (Handler w r x) = 500
          \<and> upstream (Handler w r x) = []
          \<and> out (Handler w r x) = [Text (''Server configuration error'' @ [CHR 0x0A])])"
proof -
  obtain e where e: "loadConfig w = Inl e"
    using loadConfig_missing(1) [OF assms] by blast
  obtain e' where e': "loadConfig_api w = Inl e'"
    using loadConfig_missing(2) [OF assms] by blast
  have m: "main w = Exited (''Failed to load configuration: '' @ e)"
    by (simp add: main_def e)
  have h: "Handler w r x = http_Error ''Server configuration error'' 500 (setCORS x)"
    if "Method r \<noteq> ''OPTIONS''"
    using that by (simp add: Handler_def e' Let_def)
  show ?thesis
    using m h router_ignores_environment [where w = w and g = g and config = config]
    by (auto simp: answer_def untouched_def client_status_def)
qed

theorem missing_credentials_witness:
  "(os_Getenv stub_world_noenv ''NEWS_API_KEY'' = [] \<or> os_Getenv stub_world_noenv ''OPENAI_API_KEY'' = [])
   \<and> Method (stub_request ''GET'' ''/api/news/headlines'' [] []) \<noteq> ''OPTIONS''
   \<and> untouched new_exchange
   \<and> main stub_world_noenv = Exited ''Failed to load configuration: NEWS_API_KEY environment variable is required''
   \<and> answer (main stub_world_noenv) (stub_request ''GET'' ''/api/news/headlines'' [] []) = None
   \<and> client_status (Handler stub_world_noenv
        (stub_request ''GET'' ''/api/news/headlines'' [] []) new_exchange) = 500
   \<and> upstream (Handler stub_world_noenv
        (stub_request ''GET'' ''/api/news/headlines'' [] []) new_exchange) = []"
proof -
  have a: "os_Getenv stub_world_noenv ''NEWS_API_KEY'' = [] \<or> os_Getenv stub_world_noenv ''OPENAI_API_KEY'' = []"
    by (simp add: stub_world_noenv_def)
  have b: "Method (stub_request ''GET'' ''/api/news/headlines'' [] []) \<noteq> ''OPTIONS''"
    by (simp add: stub_request_def)
  have c: "main stub_world_noenv
      = Exited ''Failed to load configuration: NEWS_API_KEY environment variable is required''"
    by (simp add: main_def loadConfig_def stub_world_noenv_def)
  show ?thesis
    using missing_credentials [OF a, where r = "stub_request ''GET'' ''/api/news/headlines'' [] []"
        and x = new_exchange] a b c untouched_new_exchange
    by blast
qed

section \<open>Requests that match no route\<close>

text \<open>
  C5 as stated fails. In \<^verbatim>\<open>main.go\<close> a GET for \<open>//nothing\<close> matches none of the four routes and
  is answered 301 (the router's redirect to the canonical path), not 404. In the serverless
  function a POST to the headlines path matches none of the four method and path pairs
  either, and is served by \<^verbatim>\<open>handleHeadlines\<close>, upstream call included.
\<close>

theorem unmatched_request_is_not_always_404:
  "client_status (router stub_world stub_config
      (stub_request ''GET'' ''//nothing'' [] []) new_exchange) = 301
   \<and> client_status (Handler stub_world
      (stub_request ''POST'' ''/api/news/headlines'' [] []) new_exchange) = 200
   \<and> upstream (Handler stub_world
      (stub_request ''POST'' ''/api/news/headlines'' [] []) new_exchange)
       = [Get ''https://newsapi.org/v2/top-headlines?country=us&apiKey=N'']"
proof -
  have "cleanPath (Path (stub_request ''GET'' ''//nothing'' [] []))
      \<noteq> Path (stub_request ''GET'' ''//nothing'' [] [])"
    by (simp add: stub_request_def cleanPath_moved)
  from router_redirect [OF this, of stub_world stub_config new_exchange]
  have "client_status (router stub_world stub_config
      (stub_request ''GET'' ''//nothing'' [] []) new_exchange) = 301"
    by (simp add: client_status_def new_exchange_def)
  moreover have "Handler stub_world (stub_request ''POST'' ''/api/news/headlines'' [] []) new_exchange
      = handleHeadlines stub_world (stub_request ''POST'' ''/api/news/headlines'' [] [])
          stub_config_api (setCORS new_exchange)"
    by (simp add: Handler_def loadConfig_api_stub Let_def stub_request_def)
  moreover have "fst (fetchNews stub_world c e) = Inr \<lparr>Status = ''ok'', TotalResults = 0, Articles = []\<rparr>"
    for c e
    by (simp add: fetchNews_def stub_world_def)
  ultimately show ?thesis
    by (simp add: handleHeadlines_getTopHeadlines getTopHeadlines_unfold client_status_def
        new_exchange_def stub_request_def stub_config_api_def Query_Get_def)
qed

text \<open>
  C5, amended. In the serverless \<^verbatim>\<open>Handler\<close>, with the configuration loaded, every request
  other than OPTIONS whose path is not \<open>/api/health\<close>, does not begin with
  \<open>/api/news/headlines\<close> or \<open>/api/news/search\<close>, and is not a POST to \<open>/api/transform\<close> is
  answered 404 with \<open>Not found\<close> and no upstream call; in particular every non-POST request
  to \<open>/api/transform\<close>. In \<^verbatim>\<open>main.go\<close> a request other than OPTIONS whose path is in canonical
  form and that matches none of the four method and path routes is handed, inside the CORS
  middleware, to the static file server, whose answer is the response, and no API handler
  runs; a request whose path is not in canonical form is answered 301 with a \<open>Location\<close>
  header, and nothing else runs.
\<close>

theorem unmatched_requests:
  assumes "untouched x" and "Method r \<noteq> ''OPTIONS''"
  shows "(loadConfig_api w = Inr ca \<and> Path r \<noteq> ''/api/health''
            \<and> \<not> prefix ''/api/news/headlines'' (Path r) \<and> \<not> prefix ''/api/news/search'' (Path r)
            \<and> \<not> (Path r = ''/api/transform'' \<and> Method r = ''POST'') \<longrightarrow>
            client_status (Handler w r x) = 404 \<and> upstream (Handler w r x) = []
          \<and> out (Handler w r x) = [Text (''Not found'' @ [CHR 0x0A])])
       \<and> (loadConfig_api w = Inr ca \<and> Path r = ''/api/transform'' \<and> Method r \<noteq> ''POST'' \<longrightarrow>
            client_status (Handler w r x) = 404 \<and> upstream (Handler w r x) = [])
       \<and> (cleanPath (Path r) = Path r
            \<and> \<not> (Path r = ''/api/news/headlines'' \<and> Method r = ''GET'')
            \<and> \<not> (Path r = ''/api/news/search'' \<and> Method r = ''GET'')
            \<and> \<not> (Path r = ''/api/transform'' \<and> Method r = ''POST'')
            \<and> \<not> (Path r = ''/health'' \<and> Method r = ''GET'') \<longrightarrow>
            router w config r x = http_FileServer w r (setCORS x))
       \<and> (cleanPath (Path r) \<noteq> Path r \<longrightarrow>
            router w config r x
              = WriteHeader 301 (Header_Set ''Location'' (url_String w r (cleanPath (Path r))) x))"
proof -
  from assms(1) have x: "code x = None" "out x = []" "upstream x = []"
    by (simp_all add: untouched_def)
  have a: "Handler w r x = http_Error ''Not found'' 404 (setCORS x)"
    if "loadConfig_api w = Inr ca" "Path r \<noteq> ''/api/health''"
      "\<not> prefix ''/api/news/headlines'' (Path r)" "\<not> prefix ''/api/news/search'' (Path r)"
      "\<not> (Path r = ''/api/transform'' \<and> Method r = ''POST'')"
    using that assms(2) by (auto simp: Handler_def Let_def)
  have b: "Path r \<noteq> ''/api/health'' \<and> \<not> prefix ''/api/news/headlines'' (Path r)
      \<and> \<not> prefix ''/api/news/search'' (Path r)" if "Path r = ''/api/transform''"
    using that by simp
  have c: "router w config r x = http_FileServer w r (setCORS x)"
    if "cleanPath (Path r) = Path r"
      "\<not> (Path r = ''/api/news/headlines'' \<and> Method r = ''GET'')"
      "\<not> (Path r = ''/api/news/search'' \<and> Method r = ''GET'')"
      "\<not> (Path r = ''/api/transform'' \<and> Method r = ''POST'')"
      "\<not> (Path r = ''/health'' \<and> Method r = ''GET'')"
    using that(2-5) assms(2) canonical_rooted [OF that(1)]
    by (auto simp: router_canonical [OF that(1)] routes_def route_Match_def corsMiddleware_setCORS)
  have A: "loadConfig_api w = Inr ca \<and> Path r \<noteq> ''/api/health''
        \<and> \<not> prefix ''/api/news/headlines'' (Path r) \<and> \<not> prefix ''/api/news/search'' (Path r)
        \<and> \<not> (Path r = ''/api/transform'' \<and> Method r = ''POST'') \<longrightarrow>
        client_status (Handler w r x) = 404 \<and> upstream (Handler w r x) = []
      \<and> out (Handler w r x) = [Text (''Not found'' @ [CHR 0x0A])]"
  proof (intro impI)
    assume h: "loadConfig_api w = Inr ca \<and> Path r \<noteq> ''/api/health''
        \<and> \<not> prefix ''/api/news/headlines'' (Path r) \<and> \<not> prefix ''/api/news/search'' (Path r)
        \<and> \<not> (Path r = ''/api/transform'' \<and> Method r = ''POST'')"
    then have "Handler w r x = http_Error ''Not found'' 404 (setCORS x)"
      by (intro a) simp_all
    then show "client_status (Handler w r x) = 404 \<and> upstream (Handler w r x) = []
      \<and> out (Handler w r x) = [Text (''Not found'' @ [CHR 0x0A])]"
      using x by (simp add: client_status_def)
  qed
  have B: "loadConfig_api w = Inr ca \<and> Path r = ''/api/transform'' \<and> Method r \<noteq> ''POST'' \<longrightarrow>
        client_status (Handler w r x) = 404 \<and> upstream (Handler w r x) = []"
  proof (intro impI)
    assume h: "loadConfig_api w = Inr ca \<and> Path r = ''/api/transform'' \<and> Method r \<noteq> ''POST''"
    then have "Handler w r x = http_Error ''Not found'' 404 (setCORS x)"
      using b by (intro a) simp_all
    then show "client_status (Handler w r x) = 404 \<and> upstream (Handler w r x) = []"
      using x by (simp add: client_status_def)
  qed
  have C: "cleanPath (Path r) = Path r
        \<and> \<not> (Path r = ''/api/news/headlines'' \<and> Method r = ''GET'')
        \<and> \<not> (Path r = ''/api/news/search'' \<and> Method r = ''GET'')
        \<and> \<not> (Path r = ''/api/transform'' \<and> Method r = ''POST'')
        \<and> \<not> (Path r = ''/health'' \<and> Method r = ''GET'') \<longrightarrow>
        router w config r x = http_FileServer w r (setCORS x)"
    using c by blast
  have D: "cleanPath (Path r) \<noteq> Path r \<longrightarrow>
        router w config r x
          = WriteHeader 301 (Header_Set ''Location'' (url_String w r (cleanPath (Path r))) x)"
    using router_redirect [of r w config x] by blast
  from A B C D show ?thesis
    by (intro conjI)
qed

theorem unmatched_requests_witness:
  "untouched new_exchange
   \<and> loadConfig_api stub_world = Inr stub_config_api
   \<and> client_status (Handler stub_world (stub_request ''GET'' ''/nothing'' [] []) new_exchange) = 404
   \<and> upstream (Handler stub_world (stub_request ''GET'' ''/nothing'' [] []) new_exchange) = []
   \<and> client_status (Handler stub_world (stub_request ''GET'' ''/api/transform'' [] []) new_exchange) = 404
   \<and> router stub_world stub_config (stub_request ''PUT'' ''/api/transform'' [] []) new_exchange
       = http_FileServer stub_world (stub_request ''PUT'' ''/api/transform'' [] []) (setCORS new_exchange)
   \<and> cleanPath (Path (stub_request ''GET'' ''//nothing'' [] []))
       \<noteq> Path (stub_request ''GET'' ''//nothing'' [] [])
   \<and> router stub_world stub_config (stub_request ''GET'' ''//nothing'' [] []) new_exchange
       = WriteHeader 301 (Header_Set ''Location''
           (url_String stub_world (stub_request ''GET'' ''//nothing'' [] [])
              (cleanPath (Path (stub_request ''GET'' ''//nothing'' [] [])))) new_exchange)"
proof -
  let ?a = "stub_request ''GET'' ''/nothing'' [] []"
  let ?b = "stub_request ''GET'' ''/api/transform'' [] []"
  let ?c = "stub_request ''PUT'' ''/api/transform'' [] []"
  let ?d = "stub_request ''GET'' ''//nothing'' [] []"
  have m: "Method ?a \<noteq> ''OPTIONS''" "Method ?b \<noteq> ''OPTIONS''" "Method ?c \<noteq> ''OPTIONS''"
    "Method ?d \<noteq> ''OPTIONS''"
    by (simp_all add: stub_request_def)
  have pa: "Path ?a \<noteq> ''/api/health'' \<and> \<not> prefix ''/api/news/headlines'' (Path ?a)
      \<and> \<not> prefix ''/api/news/search'' (Path ?a)
      \<and> \<not> (Path ?a = ''/api/transform'' \<and> Method ?a = ''POST'')"
    by (simp add: stub_request_def)
  have pb: "Path ?b = ''/api/transform'' \<and> Method ?b \<noteq> ''POST''"
    by (simp add: stub_request_def)
  have pd: "cleanPath (Path ?d) \<noteq> Path ?d"
    by (simp add: stub_request_def cleanPath_moved)
  have pc: "cleanPath (Path ?c) = Path ?c
      \<and> \<not> (Path ?c = ''/api/news/headlines'' \<and> Method ?c = ''GET'')
      \<and> \<not> (Path ?c = ''/api/news/search'' \<and> Method ?c = ''GET'')
      \<and> \<not> (Path ?c = ''/api/transform'' \<and> Method ?c = ''POST'')
      \<and> \<not> (Path ?c = ''/health'' \<and> Method ?c = ''GET'')"
    by (simp add: stub_request_def cleanPath_fixed)
  note t = unmatched_requests [OF untouched_new_exchange, where w = stub_world
      and ca = stub_config_api and config = stub_config]
  have wa: "client_status (Handler stub_world ?a new_exchange) = 404
      \<and> upstream (Handler stub_world ?a new_exchange) = []"
    using conjunct1 [OF t [OF m(1)]] pa loadConfig_api_stub by blast
  have wb: "client_status (Handler stub_world ?b new_exchange) = 404"
    using conjunct1 [OF conjunct2 [OF t [OF m(2)]]] pb loadConfig_api_stub by blast
  have wc: "router stub_world stub_config ?c new_exchange
      = http_FileServer stub_world ?c (setCORS new_exchange)"
    using conjunct1 [OF conjunct2 [OF conjunct2 [OF t [OF m(3)]]]] pc by blast
  have wd: "router stub_world stub_config ?d new_exchange
      = WriteHeader 301 (Header_Set ''Location''
          (url_String stub_world ?d (cleanPath (Path ?d))) new_exchange)"
    using conjunct2 [OF conjunct2 [OF conjunct2 [OF t [OF m(4)]]]] pd by blast
  from wa wb wc wd pd loadConfig_api_stub untouched_new_exchange show ?thesis
    by (intro conjI) (erule conjunct1 conjunct2 | assumption)+
qed

section \<open>Preflight requests\<close>

text \<open>
  C6 as stated fails for \<^verbatim>\<open>main.go\<close>: the router redirects a request whose path is not in
  canonical form before any route or middleware runs, so an OPTIONS request for
  \<open>//health\<close> is answered 301 with a \<open>Location\<close> header and without the CORS headers.
\<close>

theorem preflight_to_double_slash_is_redirected:
  "client_status (router stub_world stub_config
      (stub_request ''OPTIONS'' ''//health'' [] []) new_exchange) = 301
   \<and> hdr (router stub_world stub_config
      (stub_request ''OPTIONS'' ''//health'' [] []) new_exchange) ''Location'' = Some ''/health''
   \<and> hdr (router stub_world stub_config
      (stub_request ''OPTIONS'' ''//health'' [] []) new_exchange) ''Access-Control-Allow-Origin'' = None"
proof -
  have "cleanPath (Path (stub_request ''OPTIONS'' ''//health'' [] []))
      \<noteq> Path (stub_request ''OPTIONS'' ''//health'' [] [])"
    by (simp add: stub_request_def cleanPath_moved)
  from router_redirect [OF this, of stub_world stub_config new_exchange] show ?thesis
    by (simp add: client_status_def new_exchange_def stub_request_def cleanPath_moved stub_world_def)
qed

text \<open>
  C6, amended. An OPTIONS request is answered with status 200, an empty body and the three
  CORS headers, with no upstream call: by the serverless \<^verbatim>\<open>Handler\<close> for any path and in any
  world (the configuration is not even read), by \<^verbatim>\<open>corsMiddleware\<close> around any handler (which
  is not run), and by the router of \<^verbatim>\<open>main.go\<close> for every path in canonical form, routable
  or not. For a path that is not in canonical form the router answers 301 with a
  \<open>Location\<close> header and nothing else.
\<close>

theorem options_preflight:
  assumes "Method r = ''OPTIONS''" and "untouched x"
  shows "preflight_reply (Handler w r x)
       \<and> preflight_reply (corsMiddleware nxt r x)
       \<and> (cleanPath (Path r) = Path r \<longrightarrow> preflight_reply (router w config r x))
       \<and> (cleanPath (Path r) \<noteq> Path r \<longrightarrow>
            router w config r x
              = WriteHeader 301 (Header_Set ''Location'' (url_String w r (cleanPath (Path r))) x))"
proof -
  have h: "Handler w r x = WriteHeader 200 (setCORS x)"
    using assms(1) by (simp add: Handler_def Let_def)
  have m: "corsMiddleware nxt r x = WriteHeader 200 (setCORS x)" for nxt
    using assms(1) by (simp add: corsMiddleware_setCORS)
  have "router w config r x = WriteHeader 200 (setCORS x)" if c: "cleanPath (Path r) = Path r"
  proof -
    have "map_option handler (find (\<lambda>rt. route_Match rt r) (routes w config))
        = Some (http_FileServer w)"
      using canonical_rooted [OF c] assms(1) by (intro find_catch_all) simp_all
    then obtain rt where "find (\<lambda>rt. route_Match rt r) (routes w config) = Some rt"
      by auto
    then show ?thesis
      by (simp add: router_canonical [OF c] m)
  qed
  with h m preflight_reply_WriteHeader [OF assms(2)] router_redirect [of r w config x]
  show ?thesis
    by simp
qed

theorem options_preflight_witness:
  "Method (stub_request ''OPTIONS'' ''/no/such/path'' [] []) = ''OPTIONS''
   \<and> Method (stub_request ''OPTIONS'' ''//nothing'' [] []) = ''OPTIONS''
   \<and> untouched new_exchange
   \<and> cleanPath (Path (stub_request ''OPTIONS'' ''/no/such/path'' [] []))
       = Path (stub_request ''OPTIONS'' ''/no/such/path'' [] [])
   \<and> cleanPath (Path (stub_request ''OPTIONS'' ''//nothing'' [] []))
       \<noteq> Path (stub_request ''OPTIONS'' ''//nothing'' [] [])
   \<and> preflight_reply (Handler stub_world_noenv
        (stub_request ''OPTIONS'' ''//nothing'' [] []) new_exchange)
   \<and> preflight_reply (corsMiddleware (searchNews stub_world stub_config)
        (stub_request ''OPTIONS'' ''/no/such/path'' [] []) new_exchange)
   \<and> preflight_reply (router stub_world stub_config
        (stub_request ''OPTIONS'' ''/no/such/path'' [] []) new_exchange)
   \<and> router stub_world stub_config (stub_request ''OPTIONS'' ''//nothing'' [] []) new_exchange
       = WriteHeader 301 (Header_Set ''Location''
           (url_String stub_world (stub_request ''OPTIONS'' ''//nothing'' [] [])
              (cleanPath (Path (stub_request ''OPTIONS'' ''//nothing'' [] [])))) new_exchange)"
proof -
  let ?a = "stub_request ''OPTIONS'' ''/no/such/path'' [] []"
  let ?b = "stub_request ''OPTIONS'' ''//nothing'' [] []"
  have a: "Method ?a = ''OPTIONS''" and b: "Method ?b = ''OPTIONS''"
    by (simp_all add: stub_request_def)
  have ca: "cleanPath (Path ?a) = Path ?a"
    by (simp add: stub_request_def cleanPath_fixed)
  have cb: "cleanPath (Path ?b) \<noteq> Path ?b"
    by (simp add: stub_request_def cleanPath_moved)
  note ta = options_preflight [where w = stub_world and config = stub_config
      and nxt = "searchNews stub_world stub_config", OF a untouched_new_exchange]
  note tb = options_preflight [where w = stub_world_noenv, OF b untouched_new_exchange]
  note tc = options_preflight [where w = stub_world and config = stub_config,
      OF b untouched_new_exchange]
  have 1: "preflight_reply (Handler stub_world_noenv ?b new_exchange)"
    using tb [THEN conjunct1] .
  have 2: "preflight_reply (corsMiddleware (searchNews stub_world stub_config) ?a new_exchange)"
    using ta [THEN conjunct2, THEN conjunct1] .
  have 3: "preflight_reply (router stub_world stub_config ?a new_exchange)"
    using ta [THEN conjunct2, THEN conjunct2, THEN conjunct1] ca by blast
  have 4: "router stub_world stub_config ?b new_exchange
      = WriteHeader 301 (Header_Set ''Location''
          (url_String stub_world ?b (cleanPath (Path ?b))) new_exchange)"
    using tc [THEN conjunct2, THEN conjunct2, THEN conjunct2] cb by blast
  from a b untouched_new_exchange ca cb 1 2 3 4 show ?thesis
    by (intro conjI)
qed

section \<open>Validation of the transform body\<close>




section \<open>News results pass through\<close>



section \<open>The health report\<close>

text \<open>
  C9. The health handler of either variant (\<^verbatim>\<open>healthCheck\<close>, \<^verbatim>\<open>handleHealth\<close>) answers with
  status 200 and a JSON object whose \<open>status\<close> is \<open>healthy\<close>, whose \<open>service\<close> is the service
  name and whose \<open>time\<close> is the clock's timestamp, and makes no upstream call. That is the
  answer to \<open>GET /health\<close> through the router of \<^verbatim>\<open>main.go\<close>, and to a request other than
  OPTIONS for \<open>/api/health\<close> through \<^verbatim>\<open>Handler\<close> once the configuration has loaded.
\<close>

theorem health_report:
  assumes "untouched x"
  shows "health_reply w (healthCheck w r x)
       \<and> health_reply w (handleHealth w r x)
       \<and> (Path r = ''/health'' \<and> Method r = ''GET'' \<longrightarrow> health_reply w (router w config r x))
       \<and> (Path r = ''/api/health'' \<and> Method r \<noteq> ''OPTIONS'' \<and> loadConfig_api w = Inr c
            \<longrightarrow> health_reply w (Handler w r x))"
proof -
  have a: "health_reply w (healthCheck w r y)" if "untouched y" for y
    using that
    by (simp add: health_reply_def healthCheck_def untouched_def client_status_def Let_def)
  have b: "health_reply w (handleHealth w r y)" if "untouched y" for y
    using that
    by (simp add: health_reply_def handleHealth_def untouched_def client_status_def Let_def)
  have c: "router w config r x = healthCheck w r (setCORS x)"
    if "Path r = ''/health''" "Method r = ''GET''"
  proof -
    from that(1) have "cleanPath (Path r) = Path r"
      by (simp add: cleanPath_fixed)
    then show ?thesis
      using that by (simp add: router_canonical routes_def route_Match_def corsMiddleware_setCORS)
  qed
  have d: "Handler w r x = handleHealth w r (setCORS x)"
    if "Path r = ''/api/health''" "Method r \<noteq> ''OPTIONS''" "loadConfig_api w = Inr c"
    using that by (simp add: Handler_def Let_def)
  show ?thesis
    using a [OF assms] b [OF assms] a [OF untouched_setCORS [OF assms]]
      b [OF untouched_setCORS [OF assms]] c d
    by auto
qed

theorem health_report_witness:
  "untouched new_exchange
   \<and> Path (stub_request ''GET'' ''/health'' [] []) = ''/health''
   \<and> Method (stub_request ''GET'' ''/health'' [] []) = ''GET''
   \<and> Path (stub_request ''GET'' ''/api/health'' [] []) = ''/api/health''
   \<and> Method (stub_request ''GET'' ''/api/health'' [] []) \<noteq> ''OPTIONS''
   \<and> loadConfig_api stub_world = Inr stub_config_api
   \<and> health_reply stub_world (healthCheck stub_world (stub_request ''GET'' ''/health'' [] []) new_exchange)
   \<and> health_reply stub_world (handleHealth stub_world (stub_request ''GET'' ''/api/health'' [] []) new_exchange)
   \<and> health_reply stub_world (router stub_world stub_config (stub_request ''GET'' ''/health'' [] []) new_exchange)
   \<and> health_reply stub_world (Handler stub_world (stub_request ''GET'' ''/api/health'' [] []) new_exchange)"
proof -
  have a: "Path (stub_request ''GET'' ''/health'' [] []) = ''/health''
      \<and> Method (stub_request ''GET'' ''/health'' [] []) = ''GET''"
    by (simp add: stub_request_def)
  have b: "Path (stub_request ''GET'' ''/api/health'' [] []) = ''/api/health''
      \<and> Method (stub_request ''GET'' ''/api/health'' [] []) \<noteq> ''OPTIONS''"
    by (simp add: stub_request_def)
  show ?thesis
    using a b untouched_new_exchange loadConfig_api_stub
      health_report [where w = stub_world and config = stub_config
        and r = "stub_request ''GET'' ''/health'' [] []", OF untouched_new_exchange]
      health_report [where w = stub_world and c = stub_config_api
        and r = "stub_request ''GET'' ''/api/health'' [] []", OF untouched_new_exchange]
    by simp
qed

section \<open>The upstream URL\<close>

text \<open>
  C10. For a non-empty search text \<open>q\<close> the one upstream call of the search handlers goes to
  the URL that is \<open>https://newsapi.org/v2/everything?q=\<close>, then \<open>q\<close> character for
  character, then \<open>&apiKey=\<close> and the key; likewise a non-empty category is copied into the
  headlines URL. Nothing is escaped: the search text \<open>a&pageSize=1&apiKey=b\<close> reaches the
  upstream as the parameter \<open>q=a\<close> followed by a new parameter \<open>pageSize\<close> and a second
  \<open>apiKey\<close> ahead of the server's own.
\<close>

theorem upstream_url_is_raw_concatenation:
  assumes "untouched x"
    and "Query_Get rs ''q'' = q" and "q \<noteq> []"
    and "Query_Get rh ''category'' = c" and "c \<noteq> []"
  shows "upstream (searchNews w config rs x)
           = [Get (''https://newsapi.org/v2/everything?q='' @ q @ ''&apiKey='' @ NewsAPIKey config)]
       \<and> upstream (handleSearch w rs ca x)
           = [Get (''https://newsapi.org/v2/everything?q='' @ q @ ''&apiKey='' @ NewsAPIKey_api ca)]
       \<and> upstream (getTopHeadlines w config rh x)
           = [Get (''https://newsapi.org/v2/top-headlines?country=us&category='' @ c
                    @ ''&apiKey='' @ NewsAPIKey config)]
       \<and> upstream (handleHeadlines w rh ca x)
           = [Get (''https://newsapi.org/v2/top-headlines?country=us&category='' @ c
                    @ ''&apiKey='' @ NewsAPIKey_api ca)]
       \<and> map url_params (called_urls (searchNews w stub_config
             (stub_request ''GET'' ''/api/news/search'' [(''q'', ''a&pageSize=1&apiKey=b'')] []) x))
           = [[(''q'', ''a''), (''pageSize'', ''1''), (''apiKey'', ''b''), (''apiKey'', ''N'')]]"
proof -
  from assms(1) have x: "upstream x = []"
    by (simp add: untouched_def)
  have s: "upstream (searchNews w cfg rs x)
      = [Get (''https://newsapi.org/v2/everything?q='' @ q @ ''&apiKey='' @ NewsAPIKey cfg)]" for cfg
    using assms(2,3) x by (simp add: upstream_searchNews)
  have h: "upstream (getTopHeadlines w cfg rh x)
      = [Get (''https://newsapi.org/v2/top-headlines?country=us&category='' @ c
               @ ''&apiKey='' @ NewsAPIKey cfg)]" for cfg
    using assms(4,5) x by (simp add: upstream_getTopHeadlines)
  have p: "url_params ''https://newsapi.org/v2/everything?q=a&pageSize=1&apiKey=b&apiKey=N''
      = [(''q'', ''a''), (''pageSize'', ''1''), (''apiKey'', ''b''), (''apiKey'', ''N'')]"
    by code_simp
  have "called_urls (searchNews w stub_config
        (stub_request ''GET'' ''/api/news/search'' [(''q'', ''a&pageSize=1&apiKey=b'')] []) x)
      = [''https://newsapi.org/v2/everything?q=a&pageSize=1&apiKey=b&apiKey=N'']"
    using x
    by (simp add: upstream_searchNews called_urls_def stub_request_def stub_config_def Query_Get_def)
  with p have i: "map url_params (called_urls (searchNews w stub_config
        (stub_request ''GET'' ''/api/news/search'' [(''q'', ''a&pageSize=1&apiKey=b'')] []) x))
      = [[(''q'', ''a''), (''pageSize'', ''1''), (''apiKey'', ''b''), (''apiKey'', ''N'')]]"
    by simp
  show ?thesis
    using s h i by (simp add: handleSearch_searchNews handleHeadlines_getTopHeadlines)
qed

theorem upstream_url_is_raw_concatenation_witness:
  "untouched new_exchange
   \<and> Query_Get (stub_request ''GET'' ''/api/news/search'' [(''q'', ''a=b&c'')] []) ''q'' = ''a=b&c''
   \<and> Query_Get (stub_request ''GET'' ''/api/news/headlines'' [(''category'', ''science'')] []) ''category''
       = ''science''
   \<and> upstream (searchNews stub_world stub_config
        (stub_request ''GET'' ''/api/news/search'' [(''q'', ''a=b&c'')] []) new_exchange)
       = [Get ''https://newsapi.org/v2/everything?q=a=b&c&apiKey=N'']
   \<and> upstream (handleHeadlines stub_world
        (stub_request ''GET'' ''/api/news/headlines'' [(''category'', ''science'')] [])
        stub_config_api new_exchange)
       = [Get ''https://newsapi.org/v2/top-headlines?country=us&category=science&apiKey=N'']"
proof -
  have a: "Query_Get (stub_request ''GET'' ''/api/news/search'' [(''q'', ''a=b&c'')] []) ''q'' = ''a=b&c''"
    by (simp add: Query_Get_def stub_request_def)
  have b: "Query_Get (stub_request ''GET'' ''/api/news/headlines'' [(''category'', ''science'')] [])
      ''category'' = ''science''"
    by (simp add: Query_Get_def stub_request_def)
  have n: "''a=b&c'' \<noteq> []" "''science'' \<noteq> []"
    by simp_all
  show ?thesis
    using a b untouched_new_exchange
      upstream_url_is_raw_concatenation [OF untouched_new_exchange a n(1) b n(2),
        where w = stub_world and config = stub_config and ca = stub_config_api]
    by (simp add: stub_config_def stub_config_api_def)
qed

end
